theory Spec2Isabelle
  imports Main
begin

section \<open>Data model\<close>

text \<open>
  The persistent state of the inventory subsystem: one balance table keyed by
  (warehouseId, productId), the master data the services look up, and one document
  table per movement type. Identifiers are the UUID strings of the source. Columns that
  no operation below reads (dates, operator, remark, location, batch, type, related
  order) are left out of the records.
\<close>

type_synonym ident = string

text \<open>
  Modelled from the spec: the column types of the balance and line tables. They are
  declared in \<open>prisma/schema.prisma\<close>, which is not among the sources, and the services
  handle them as JavaScript numbers. The specification's data model gives a quantity
  as "integer or fixed-point"; quantities are unbounded integers here (units of the
  ledger's smallest step), so that sums and differences are exact.
\<close>

record inventory_row =
  quantity :: int
  availableQuantity :: int
  reservedQuantity :: int

type_synonym inventory = "ident \<times> ident \<Rightarrow> inventory_row option"

record stock_item =
  productId :: ident
  item_quantity :: int

record stock_doc =
  doc_id :: ident
  docNo :: string
  warehouseId :: ident
  status :: string
  items :: "stock_item list"

record transfer_doc =
  transfer_id :: ident
  transferNo :: string
  fromWarehouseId :: ident
  toWarehouseId :: ident
  transfer_status :: string
  transfer_items :: "stock_item list"

record check_item =
  check_productId :: ident
  bookQuantity :: int
  actualQuantity :: int
  difference :: int

record check_doc =
  check_id :: ident
  checkNo :: string
  check_warehouseId :: ident
  check_status :: string
  check_items :: "check_item list"

text \<open>
  Document tables are lists of rows in creation order (\<open>create\<close> appends), so that
  counting and ordering are computable.
\<close>

record db =
  inventory :: inventory
  warehouses :: "ident set"
  products :: "ident set"
  stockIns :: "stock_doc list"
  stockOuts :: "stock_doc list"
  stockTransfers :: "transfer_doc list"
  stockChecks :: "check_doc list"

text \<open>
  Every \<open>throw new Error(message)\<close> of the services, one constructor per message:
  \<open>DocumentNotFound\<close> is "<document> does not exist", \<open>DocumentNotEditable st\<close> is
  "a <st> <document> cannot be modified", \<open>AlreadyCompleted\<close> is "<document> is already
  completed", \<open>AlreadyCancelled\<close> is "<document> is cancelled and cannot be completed",
  \<open>InventoryNotFound\<close> is "inventory does not exist" and \<open>InsufficientStock\<close> is
  "insufficient inventory".
\<close>

datatype error =
    DocumentNotFound
  | DocumentNotEditable string
  | AlreadyCompleted
  | AlreadyCancelled
  | WarehouseNotFound
  | SourceWarehouseNotFound
  | TargetWarehouseNotFound
  | SameWarehouse
  | ProductNotFound ident
  | InventoryNotFound
  | InsufficientStock

text \<open>
  \<open>prisma.$transaction(callback)\<close>: the writes of the callback are committed when it
  returns and discarded when it throws; the exception is passed on to the caller.
\<close>

definition transaction :: "(db \<Rightarrow> error + 'a \<times> db) \<Rightarrow> db \<Rightarrow> (error + 'a) \<times> db" where
  "transaction body s = (case body s of Inl e \<Rightarrow> (Inl e, s) | Inr (x, s') \<Rightarrow> (Inr x, s'))"

section \<open>InventoryRepository and InventoryService\<close>

text \<open>
  \<open>InventoryRepository.updateQuantity\<close>; the two optional arguments are options, and
  \<open>a ?? b\<close> is the case distinction on them.
\<close>

definition updateQuantity ::
  "ident \<Rightarrow> ident \<Rightarrow> int \<Rightarrow> int option \<Rightarrow> int option \<Rightarrow> inventory \<Rightarrow> inventory_row \<times> inventory" where
  "updateQuantity wid pid qty avail reserved tbl =
    (case tbl (wid, pid) of
       None \<Rightarrow>
         (let row = \<lparr>quantity = qty,
                     availableQuantity = (case avail of Some a \<Rightarrow> a | None \<Rightarrow> qty),
                     reservedQuantity = (case reserved of Some r \<Rightarrow> r | None \<Rightarrow> 0)\<rparr>
          in (row, tbl((wid, pid) \<mapsto> row)))
     | Some existing \<Rightarrow>
         (let row = existing\<lparr>
                quantity := quantity existing + qty,
                availableQuantity :=
                  (case avail of Some a \<Rightarrow> a
                   | None \<Rightarrow> availableQuantity existing
                             + (qty - (case reserved of Some r \<Rightarrow> r | None \<Rightarrow> 0))),
                reservedQuantity :=
                  (case reserved of Some r \<Rightarrow> r | None \<Rightarrow> reservedQuantity existing)\<rparr>
          in (row, tbl((wid, pid) \<mapsto> row))))"

text \<open>\<open>InventoryService.increaseInventory\<close>: the stand-alone increase.\<close>

definition increaseInventory :: "ident \<Rightarrow> ident \<Rightarrow> int \<Rightarrow> db \<Rightarrow> (error + unit) \<times> db" where
  "increaseInventory wid pid qty s =
    (if wid \<notin> warehouses s then (Inl WarehouseNotFound, s)
     else if pid \<notin> products s then (Inl (ProductNotFound pid), s)
     else (Inr (), s\<lparr>inventory := snd (updateQuantity wid pid qty None None (inventory s))\<rparr>))"

text \<open>\<open>InventoryService.increaseInventoryInTransaction\<close>, on the transaction's balance table.\<close>

definition increaseInventoryInTransaction ::
  "ident \<Rightarrow> ident \<Rightarrow> int \<Rightarrow> inventory \<Rightarrow> error + inventory" where
  "increaseInventoryInTransaction wid pid qty tbl =
    (case tbl (wid, pid) of
       None \<Rightarrow>
         Inr (tbl((wid, pid) \<mapsto>
                \<lparr>quantity = qty, availableQuantity = qty, reservedQuantity = 0\<rparr>))
     | Some existing \<Rightarrow>
         Inr (tbl((wid, pid) \<mapsto>
                existing\<lparr>quantity := quantity existing + qty,
                         availableQuantity := availableQuantity existing + qty\<rparr>)))"

text \<open>\<open>InventoryService.decreaseInventory\<close>: the stand-alone decrease.\<close>

definition decreaseInventory :: "ident \<Rightarrow> ident \<Rightarrow> int \<Rightarrow> db \<Rightarrow> (error + unit) \<times> db" where
  "decreaseInventory wid pid qty s =
    (if wid \<notin> warehouses s then (Inl WarehouseNotFound, s)
     else if pid \<notin> products s then (Inl (ProductNotFound pid), s)
     else (case inventory s (wid, pid) of
             None \<Rightarrow> (Inl InsufficientStock, s)
           | Some row \<Rightarrow>
               if availableQuantity row < qty then (Inl InsufficientStock, s)
               else (Inr (),
                     s\<lparr>inventory := snd (updateQuantity wid pid (- qty) None None (inventory s))\<rparr>)))"

text \<open>\<open>InventoryService.decreaseInventoryInTransaction\<close>.\<close>

definition decreaseInventoryInTransaction ::
  "ident \<Rightarrow> ident \<Rightarrow> int \<Rightarrow> inventory \<Rightarrow> error + inventory" where
  "decreaseInventoryInTransaction wid pid qty tbl =
    (case tbl (wid, pid) of
       None \<Rightarrow> Inl InventoryNotFound
     | Some existing \<Rightarrow>
         if availableQuantity existing < qty then Inl InsufficientStock
         else Inr (tbl((wid, pid) \<mapsto>
                     existing\<lparr>quantity := quantity existing - qty,
                              availableQuantity := availableQuantity existing - qty\<rparr>)))"

text \<open>The balance invariant of a row, and of the whole table.\<close>

definition balanced :: "inventory_row \<Rightarrow> bool" where
  "balanced row \<longleftrightarrow> quantity row = availableQuantity row + reservedQuantity row"

definition ledger_ok :: "inventory \<Rightarrow> bool" where
  "ledger_ok tbl \<longleftrightarrow> (\<forall>k row. tbl k = Some row \<longrightarrow> balanced row)"

section \<open>Document numbers\<close>

text \<open>
  \<open>String(n)\<close> for a natural number, \<open>s.padStart(3, '0')\<close>, \<open>s.startsWith(p)\<close>, and
  \<open>date.toISOString().slice(0, 10).replace(/-/g, '')\<close> on the ISO string of the clock.
\<close>

definition digit_char :: "nat \<Rightarrow> char" where
  "digit_char d = char_of (of_char CHR ''0'' + d)"

fun decimal :: "nat \<Rightarrow> string" where
  "decimal n = (if n < 10 then [digit_char n] else decimal (n div 10) @ [digit_char (n mod 10)])"

declare decimal.simps [simp del]

definition padStart3 :: "string \<Rightarrow> string" where
  "padStart3 str = replicate (3 - length str) CHR ''0'' @ str"

definition startsWith :: "string \<Rightarrow> string \<Rightarrow> bool" where
  "startsWith str p \<longleftrightarrow> take (length p) str = p"

definition dateStr :: "string \<Rightarrow> string" where
  "dateStr now = filter (\<lambda>c. c \<noteq> CHR ''-'') (take 10 now)"

text \<open>
  The body shared by \<open>generateInNo\<close>, \<open>generateOutNo\<close>, \<open>generateTransferNo\<close> and
  \<open>generateCheckNo\<close>, on the number column of the repository's own table.
\<close>

definition generateNo :: "string \<Rightarrow> string \<Rightarrow> string list \<Rightarrow> string" where
  "generateNo prefix now nos =
    (let count = length (filter (\<lambda>no. startsWith no (prefix @ dateStr now)) nos);
         seq = padStart3 (decimal (count + 1))
     in prefix @ dateStr now @ seq)"

definition generateInNo :: "string \<Rightarrow> string \<Rightarrow> db \<Rightarrow> string" where
  "generateInNo prefix now s = generateNo prefix now (map docNo (stockIns s))"

definition generateOutNo :: "string \<Rightarrow> string \<Rightarrow> db \<Rightarrow> string" where
  "generateOutNo prefix now s = generateNo prefix now (map docNo (stockOuts s))"

definition generateTransferNo :: "string \<Rightarrow> string \<Rightarrow> db \<Rightarrow> string" where
  "generateTransferNo prefix now s = generateNo prefix now (map transferNo (stockTransfers s))"

definition generateCheckNo :: "string \<Rightarrow> string \<Rightarrow> db \<Rightarrow> string" where
  "generateCheckNo prefix now s = generateNo prefix now (map checkNo (stockChecks s))"

text \<open>
  Reading a number back: the value of a string of decimal digits, and the part of a
  document number after its prefix and date.
\<close>

definition digit_value :: "char \<Rightarrow> nat" where
  "digit_value c = of_char c - of_char CHR ''0''"

definition decimal_value :: "string \<Rightarrow> nat" where
  "decimal_value str = foldl (\<lambda>acc c. 10 * acc + digit_value c) 0 str"

definition seq_suffix :: "string \<Rightarrow> string \<Rightarrow> string \<Rightarrow> string" where
  "seq_suffix prefix now no = drop (length (prefix @ dateStr now)) no"

section \<open>StockInService and StockOutService\<close>

text \<open>
  The creation input and the partial update input (\<open>Partial<CreateStockInInput>\<close>: an
  absent field is \<open>None\<close>). \<open>truthy\<close> is JavaScript's truth value of an optional string:
  \<open>undefined\<close> and the empty string are false.
\<close>

record stock_input =
  input_warehouseId :: ident
  input_items :: "stock_item list"

record stock_patch =
  patch_warehouseId :: "ident option"
  patch_items :: "stock_item list option"

definition truthy :: "string option \<Rightarrow> string option" where
  "truthy x = (case x of None \<Rightarrow> None | Some str \<Rightarrow> if str = [] then None else Some str)"

text \<open>The loop that looks every product up and throws at the first missing one.\<close>

definition missing_product :: "ident set \<Rightarrow> ident list \<Rightarrow> ident option" where
  "missing_product ps pids = find (\<lambda>pid. pid \<notin> ps) pids"

text \<open>
  \<open>createStockIn\<close>. The primary key \<open>newId\<close> is generated by the database and \<open>now\<close> is
  the clock's ISO string; both are arguments here.
\<close>

definition createStockIn :: "ident \<Rightarrow> string \<Rightarrow> stock_input \<Rightarrow> db \<Rightarrow> (error + stock_doc) \<times> db" where
  "createStockIn newId now data s =
    (if input_warehouseId data \<notin> warehouses s then (Inl WarehouseNotFound, s)
     else case missing_product (products s) (map productId (input_items data)) of
            Some pid \<Rightarrow> (Inl (ProductNotFound pid), s)
          | None \<Rightarrow>
              transaction (\<lambda>tx.
                let inNo = generateInNo ''IN'' now tx;
                    stockIn = \<lparr>doc_id = newId, docNo = inNo,
                               warehouseId = input_warehouseId data,
                               status = ''draft'', items = input_items data\<rparr>
                in Inr (stockIn, tx\<lparr>stockIns := stockIns tx @ [stockIn]\<rparr>)) s)"

text \<open>The row update of \<open>updateStockIn\<close> and \<open>updateStockOut\<close>: only supplied fields change.\<close>

definition patch_stock_doc :: "stock_patch \<Rightarrow> stock_doc \<Rightarrow> stock_doc" where
  "patch_stock_doc data d =
    d\<lparr>warehouseId := (case truthy (patch_warehouseId data) of Some w \<Rightarrow> w | None \<Rightarrow> warehouseId d),
      items := (case patch_items data of Some its \<Rightarrow> its | None \<Rightarrow> items d)\<rparr>"

text \<open>
  The two reference checks of an update: a supplied warehouse must exist, and every
  product of supplied lines must exist.
\<close>

definition patch_warehouse_missing :: "stock_patch \<Rightarrow> db \<Rightarrow> bool" where
  "patch_warehouse_missing data s =
    (case truthy (patch_warehouseId data) of Some w \<Rightarrow> w \<notin> warehouses s | None \<Rightarrow> False)"

definition patch_product_missing :: "stock_patch \<Rightarrow> db \<Rightarrow> ident option" where
  "patch_product_missing data s =
    (case patch_items data of
       Some its \<Rightarrow> missing_product (products s) (map productId its)
     | None \<Rightarrow> None)"

definition updateStockIn :: "ident \<Rightarrow> stock_patch \<Rightarrow> db \<Rightarrow> (error + stock_doc) \<times> db" where
  "updateStockIn i data s =
    (case find (\<lambda>d. doc_id d = i) (stockIns s) of
       None \<Rightarrow> (Inl DocumentNotFound, s)
     | Some stockIn \<Rightarrow>
         if status stockIn = ''completed'' then (Inl (DocumentNotEditable ''completed''), s)
         else if status stockIn = ''cancelled'' then (Inl (DocumentNotEditable ''cancelled''), s)
         else if patch_warehouse_missing data s then (Inl WarehouseNotFound, s)
         else (case patch_product_missing data s of
                Some pid \<Rightarrow> (Inl (ProductNotFound pid), s)
              | None \<Rightarrow>
                  transaction (\<lambda>tx.
                    Inr (patch_stock_doc data stockIn,
                         tx\<lparr>stockIns := map (\<lambda>d. if doc_id d = i then patch_stock_doc data d else d)
                                           (stockIns tx)\<rparr>)) s))"

text \<open>The loop of \<open>completeStockIn\<close> over the document's lines, in their stored order.\<close>

fun stockInLoop :: "ident \<Rightarrow> stock_item list \<Rightarrow> inventory \<Rightarrow> error + inventory" where
  "stockInLoop wid [] tbl = Inr tbl"
| "stockInLoop wid (item # rest) tbl =
    (case increaseInventoryInTransaction wid (productId item) (item_quantity item) tbl of
       Inl e \<Rightarrow> Inl e
     | Inr tbl' \<Rightarrow> stockInLoop wid rest tbl')"

definition completeStockIn :: "ident \<Rightarrow> db \<Rightarrow> (error + unit) \<times> db" where
  "completeStockIn i s =
    (case find (\<lambda>d. doc_id d = i) (stockIns s) of
       None \<Rightarrow> (Inl DocumentNotFound, s)
     | Some stockIn \<Rightarrow>
         if status stockIn = ''completed'' then (Inl AlreadyCompleted, s)
         else if status stockIn = ''cancelled'' then (Inl AlreadyCancelled, s)
         else transaction (\<lambda>tx.
                let tx1 = tx\<lparr>stockIns := map (\<lambda>d. if doc_id d = i then d\<lparr>status := ''completed''\<rparr> else d)
                                             (stockIns tx)\<rparr>
                in case stockInLoop (warehouseId stockIn) (items stockIn) (inventory tx1) of
                     Inl e \<Rightarrow> Inl e
                   | Inr tbl' \<Rightarrow> Inr ((), tx1\<lparr>inventory := tbl'\<rparr>)) s)"

definition createStockOut :: "ident \<Rightarrow> string \<Rightarrow> stock_input \<Rightarrow> db \<Rightarrow> (error + stock_doc) \<times> db" where
  "createStockOut newId now data s =
    (if input_warehouseId data \<notin> warehouses s then (Inl WarehouseNotFound, s)
     else case missing_product (products s) (map productId (input_items data)) of
            Some pid \<Rightarrow> (Inl (ProductNotFound pid), s)
          | None \<Rightarrow>
              transaction (\<lambda>tx.
                let outNo = generateOutNo ''OUT'' now tx;
                    stockOut = \<lparr>doc_id = newId, docNo = outNo,
                                warehouseId = input_warehouseId data,
                                status = ''draft'', items = input_items data\<rparr>
                in Inr (stockOut, tx\<lparr>stockOuts := stockOuts tx @ [stockOut]\<rparr>)) s)"

definition updateStockOut :: "ident \<Rightarrow> stock_patch \<Rightarrow> db \<Rightarrow> (error + stock_doc) \<times> db" where
  "updateStockOut i data s =
    (case find (\<lambda>d. doc_id d = i) (stockOuts s) of
       None \<Rightarrow> (Inl DocumentNotFound, s)
     | Some stockOut \<Rightarrow>
         if status stockOut = ''completed'' then (Inl (DocumentNotEditable ''completed''), s)
         else if status stockOut = ''cancelled'' then (Inl (DocumentNotEditable ''cancelled''), s)
         else if patch_warehouse_missing data s then (Inl WarehouseNotFound, s)
         else (case patch_product_missing data s of
                Some pid \<Rightarrow> (Inl (ProductNotFound pid), s)
              | None \<Rightarrow>
                  transaction (\<lambda>tx.
                    Inr (patch_stock_doc data stockOut,
                         tx\<lparr>stockOuts := map (\<lambda>d. if doc_id d = i then patch_stock_doc data d else d)
                                            (stockOuts tx)\<rparr>)) s))"

fun stockOutLoop :: "ident \<Rightarrow> stock_item list \<Rightarrow> inventory \<Rightarrow> error + inventory" where
  "stockOutLoop wid [] tbl = Inr tbl"
| "stockOutLoop wid (item # rest) tbl =
    (case decreaseInventoryInTransaction wid (productId item) (item_quantity item) tbl of
       Inl e \<Rightarrow> Inl e
     | Inr tbl' \<Rightarrow> stockOutLoop wid rest tbl')"

definition completeStockOut :: "ident \<Rightarrow> db \<Rightarrow> (error + unit) \<times> db" where
  "completeStockOut i s =
    (case find (\<lambda>d. doc_id d = i) (stockOuts s) of
       None \<Rightarrow> (Inl DocumentNotFound, s)
     | Some stockOut \<Rightarrow>
         if status stockOut = ''completed'' then (Inl AlreadyCompleted, s)
         else if status stockOut = ''cancelled'' then (Inl AlreadyCancelled, s)
         else transaction (\<lambda>tx.
                let tx1 = tx\<lparr>stockOuts := map (\<lambda>d. if doc_id d = i then d\<lparr>status := ''completed''\<rparr> else d)
                                              (stockOuts tx)\<rparr>
                in case stockOutLoop (warehouseId stockOut) (items stockOut) (inventory tx1) of
                     Inl e \<Rightarrow> Inl e
                   | Inr tbl' \<Rightarrow> Inr ((), tx1\<lparr>inventory := tbl'\<rparr>)) s)"

section \<open>StockTransferService\<close>

record transfer_input =
  input_fromWarehouseId :: ident
  input_toWarehouseId :: ident
  input_transfer_items :: "stock_item list"

record transfer_patch =
  patch_fromWarehouseId :: "ident option"
  patch_toWarehouseId :: "ident option"
  patch_transfer_items :: "stock_item list option"

definition createStockTransfer ::
  "ident \<Rightarrow> string \<Rightarrow> transfer_input \<Rightarrow> db \<Rightarrow> (error + transfer_doc) \<times> db" where
  "createStockTransfer newId now data s =
    (if input_fromWarehouseId data \<notin> warehouses s then (Inl SourceWarehouseNotFound, s)
     else if input_toWarehouseId data \<notin> warehouses s then (Inl TargetWarehouseNotFound, s)
     else if input_fromWarehouseId data = input_toWarehouseId data then (Inl SameWarehouse, s)
     else (case missing_product (products s) (map productId (input_transfer_items data)) of
            Some pid \<Rightarrow> (Inl (ProductNotFound pid), s)
          | None \<Rightarrow>
              transaction (\<lambda>tx.
                let no = generateTransferNo ''TR'' now tx;
                    stockTransfer = \<lparr>transfer_id = newId, transferNo = no,
                                     fromWarehouseId = input_fromWarehouseId data,
                                     toWarehouseId = input_toWarehouseId data,
                                     transfer_status = ''draft'',
                                     transfer_items = input_transfer_items data\<rparr>
                in Inr (stockTransfer, tx\<lparr>stockTransfers := stockTransfers tx @ [stockTransfer]\<rparr>)) s))"

text \<open>
  The warehouse checks of \<open>updateStockTransfer\<close>, made only when a warehouse is supplied:
  each supplied warehouse must exist, and the resulting pair must differ.
\<close>

definition transfer_patch_error :: "transfer_patch \<Rightarrow> transfer_doc \<Rightarrow> db \<Rightarrow> error option" where
  "transfer_patch_error data d s =
    (if truthy (patch_fromWarehouseId data) = None \<and> truthy (patch_toWarehouseId data) = None
       then None
     else if (case truthy (patch_fromWarehouseId data) of
                Some w \<Rightarrow> w \<notin> warehouses s | None \<Rightarrow> False)
       then Some SourceWarehouseNotFound
     else if (case truthy (patch_toWarehouseId data) of
                Some w \<Rightarrow> w \<notin> warehouses s | None \<Rightarrow> False)
       then Some TargetWarehouseNotFound
     else if (case truthy (patch_fromWarehouseId data) of
                Some w \<Rightarrow> w | None \<Rightarrow> fromWarehouseId d)
             = (case truthy (patch_toWarehouseId data) of
                  Some w \<Rightarrow> w | None \<Rightarrow> toWarehouseId d)
       then Some SameWarehouse
     else None)"

definition patch_transfer_doc :: "transfer_patch \<Rightarrow> transfer_doc \<Rightarrow> transfer_doc" where
  "patch_transfer_doc data d =
    d\<lparr>fromWarehouseId :=
        (case truthy (patch_fromWarehouseId data) of Some w \<Rightarrow> w | None \<Rightarrow> fromWarehouseId d),
      toWarehouseId :=
        (case truthy (patch_toWarehouseId data) of Some w \<Rightarrow> w | None \<Rightarrow> toWarehouseId d),
      transfer_items :=
        (case patch_transfer_items data of Some its \<Rightarrow> its | None \<Rightarrow> transfer_items d)\<rparr>"

definition updateStockTransfer ::
  "ident \<Rightarrow> transfer_patch \<Rightarrow> db \<Rightarrow> (error + transfer_doc) \<times> db" where
  "updateStockTransfer i data s =
    (case find (\<lambda>d. transfer_id d = i) (stockTransfers s) of
       None \<Rightarrow> (Inl DocumentNotFound, s)
     | Some stockTransfer \<Rightarrow>
         if transfer_status stockTransfer = ''completed''
           then (Inl (DocumentNotEditable ''completed''), s)
         else if transfer_status stockTransfer = ''cancelled''
           then (Inl (DocumentNotEditable ''cancelled''), s)
         else (case transfer_patch_error data stockTransfer s of
                 Some e \<Rightarrow> (Inl e, s)
               | None \<Rightarrow>
                  (case (case patch_transfer_items data of
                           Some its \<Rightarrow> missing_product (products s) (map productId its)
                         | None \<Rightarrow> None) of
                     Some pid \<Rightarrow> (Inl (ProductNotFound pid), s)
                   | None \<Rightarrow>
                       transaction (\<lambda>tx.
                         Inr (patch_transfer_doc data stockTransfer,
                              tx\<lparr>stockTransfers :=
                                   map (\<lambda>d. if transfer_id d = i then patch_transfer_doc data d else d)
                                       (stockTransfers tx)\<rparr>)) s)))"

text \<open>
  The loop of \<open>completeStockTransfer\<close>: per line, the decrease at the source warehouse
  and then the increase at the destination warehouse.
\<close>

fun stockTransferLoop :: "ident \<Rightarrow> ident \<Rightarrow> stock_item list \<Rightarrow> inventory \<Rightarrow> error + inventory" where
  "stockTransferLoop src dst [] tbl = Inr tbl"
| "stockTransferLoop src dst (item # rest) tbl =
    (case decreaseInventoryInTransaction src (productId item) (item_quantity item) tbl of
       Inl e \<Rightarrow> Inl e
     | Inr tbl1 \<Rightarrow>
         (case increaseInventoryInTransaction dst (productId item) (item_quantity item) tbl1 of
            Inl e \<Rightarrow> Inl e
          | Inr tbl2 \<Rightarrow> stockTransferLoop src dst rest tbl2))"

definition completeStockTransfer :: "ident \<Rightarrow> db \<Rightarrow> (error + unit) \<times> db" where
  "completeStockTransfer i s =
    (case find (\<lambda>d. transfer_id d = i) (stockTransfers s) of
       None \<Rightarrow> (Inl DocumentNotFound, s)
     | Some stockTransfer \<Rightarrow>
         if transfer_status stockTransfer = ''completed'' then (Inl AlreadyCompleted, s)
         else if transfer_status stockTransfer = ''cancelled'' then (Inl AlreadyCancelled, s)
         else transaction (\<lambda>tx.
                let tx1 = tx\<lparr>stockTransfers :=
                               map (\<lambda>d. if transfer_id d = i then d\<lparr>transfer_status := ''completed''\<rparr> else d)
                                   (stockTransfers tx)\<rparr>
                in case stockTransferLoop (fromWarehouseId stockTransfer) (toWarehouseId stockTransfer)
                          (transfer_items stockTransfer) (inventory tx1) of
                     Inl e \<Rightarrow> Inl e
                   | Inr tbl' \<Rightarrow> Inr ((), tx1\<lparr>inventory := tbl'\<rparr>)) s)"

section \<open>StockCheckService\<close>

record check_item_input =
  input_productId :: ident
  input_bookQuantity :: int
  input_actualQuantity :: int

record check_input =
  input_check_warehouseId :: ident
  input_check_items :: "check_item_input list"

record check_patch =
  patch_check_warehouseId :: "ident option"
  patch_check_items :: "check_item_input list option"

text \<open>\<open>itemsWithDifference\<close>: the difference is computed from the input and stored with the line.\<close>

definition itemsWithDifference :: "check_item_input list \<Rightarrow> check_item list" where
  "itemsWithDifference its =
    map (\<lambda>item. \<lparr>check_productId = input_productId item,
                  bookQuantity = input_bookQuantity item,
                  actualQuantity = input_actualQuantity item,
                  difference = input_actualQuantity item - input_bookQuantity item\<rparr>) its"

definition createStockCheck :: "ident \<Rightarrow> string \<Rightarrow> check_input \<Rightarrow> db \<Rightarrow> (error + check_doc) \<times> db" where
  "createStockCheck newId now data s =
    (if input_check_warehouseId data \<notin> warehouses s then (Inl WarehouseNotFound, s)
     else (case missing_product (products s) (map input_productId (input_check_items data)) of
            Some pid \<Rightarrow> (Inl (ProductNotFound pid), s)
          | None \<Rightarrow>
              transaction (\<lambda>tx.
                let no = generateCheckNo ''CK'' now tx;
                    stockCheck = \<lparr>check_id = newId, checkNo = no,
                                  check_warehouseId = input_check_warehouseId data,
                                  check_status = ''draft'',
                                  check_items = itemsWithDifference (input_check_items data)\<rparr>
                in Inr (stockCheck, tx\<lparr>stockChecks := stockChecks tx @ [stockCheck]\<rparr>)) s))"

definition patch_check_doc :: "check_patch \<Rightarrow> check_doc \<Rightarrow> check_doc" where
  "patch_check_doc data d =
    d\<lparr>check_warehouseId :=
        (case truthy (patch_check_warehouseId data) of Some w \<Rightarrow> w | None \<Rightarrow> check_warehouseId d),
      check_items :=
        (case patch_check_items data of
           Some its \<Rightarrow> itemsWithDifference its
         | None \<Rightarrow> check_items d)\<rparr>"

definition updateStockCheck :: "ident \<Rightarrow> check_patch \<Rightarrow> db \<Rightarrow> (error + check_doc) \<times> db" where
  "updateStockCheck i data s =
    (case find (\<lambda>d. check_id d = i) (stockChecks s) of
       None \<Rightarrow> (Inl DocumentNotFound, s)
     | Some stockCheck \<Rightarrow>
         if check_status stockCheck = ''completed''
           then (Inl (DocumentNotEditable ''completed''), s)
         else if check_status stockCheck = ''cancelled''
           then (Inl (DocumentNotEditable ''cancelled''), s)
         else if (case truthy (patch_check_warehouseId data) of
                    Some w \<Rightarrow> w \<notin> warehouses s | None \<Rightarrow> False)
           then (Inl WarehouseNotFound, s)
         else (case (case patch_check_items data of
                       Some its \<Rightarrow> missing_product (products s) (map input_productId its)
                     | None \<Rightarrow> None) of
                 Some pid \<Rightarrow> (Inl (ProductNotFound pid), s)
               | None \<Rightarrow>
                   transaction (\<lambda>tx.
                     Inr (patch_check_doc data stockCheck,
                          tx\<lparr>stockChecks :=
                               map (\<lambda>d. if check_id d = i then patch_check_doc data d else d)
                                   (stockChecks tx)\<rparr>)) s))"

text \<open>
  The body of the loop of \<open>completeStockCheck\<close> for one line, and the loop: a surplus is
  an increase, a shortage a decrease of \<open>Math.abs(difference)\<close>, no difference no call.
\<close>

definition applyDifference :: "ident \<Rightarrow> check_item \<Rightarrow> inventory \<Rightarrow> error + inventory" where
  "applyDifference wid item tbl =
    (if difference item > 0
       then increaseInventoryInTransaction wid (check_productId item) (difference item) tbl
     else if difference item < 0
       then decreaseInventoryInTransaction wid (check_productId item) (\<bar>difference item\<bar>) tbl
     else Inr tbl)"

fun stockCheckLoop :: "ident \<Rightarrow> check_item list \<Rightarrow> inventory \<Rightarrow> error + inventory" where
  "stockCheckLoop wid [] tbl = Inr tbl"
| "stockCheckLoop wid (item # rest) tbl =
    (case applyDifference wid item tbl of
       Inl e \<Rightarrow> Inl e
     | Inr tbl' \<Rightarrow> stockCheckLoop wid rest tbl')"

definition completeStockCheck :: "ident \<Rightarrow> db \<Rightarrow> (error + unit) \<times> db" where
  "completeStockCheck i s =
    (case find (\<lambda>d. check_id d = i) (stockChecks s) of
       None \<Rightarrow> (Inl DocumentNotFound, s)
     | Some stockCheck \<Rightarrow>
         if check_status stockCheck = ''completed'' then (Inl AlreadyCompleted, s)
         else if check_status stockCheck = ''cancelled'' then (Inl AlreadyCancelled, s)
         else transaction (\<lambda>tx.
                let tx1 = tx\<lparr>stockChecks :=
                               map (\<lambda>d. if check_id d = i then d\<lparr>check_status := ''completed''\<rparr> else d)
                                   (stockChecks tx)\<rparr>
                in case stockCheckLoop (check_warehouseId stockCheck) (check_items stockCheck)
                          (inventory tx1) of
                     Inl e \<Rightarrow> Inl e
                   | Inr tbl' \<Rightarrow> Inr ((), tx1\<lparr>inventory := tbl'\<rparr>)) s)"

text \<open>
  The list query. A row fetched by \<open>findMany\<close> carries its scalar columns and the
  relations named in \<open>include\<close>; a relation that is not included is absent from the
  object (\<open>None\<close>). \<open>orderBy createdAt desc\<close> is the reversed creation order, and the
  route's pagination schema supplies \<open>page\<close> and \<open>pageSize\<close> as positive integers.
\<close>

record fetched_check =
  fetched_id :: ident
  fetched_checkNo :: string
  fetched_warehouseId :: ident
  fetched_status :: string
  fetched_items :: "check_item list option"

definition findManyStockChecks :: "nat \<Rightarrow> nat \<Rightarrow> bool \<Rightarrow> db \<Rightarrow> fetched_check list" where
  "findManyStockChecks skip tk include_items s =
    map (\<lambda>d. \<lparr>fetched_id = check_id d, fetched_checkNo = checkNo d,
               fetched_warehouseId = check_warehouseId d, fetched_status = check_status d,
               fetched_items = (if include_items then Some (check_items d) else None)\<rparr>)
        (take tk (drop skip (rev (stockChecks s))))"

record check_listing =
  listing_id :: ident
  listing_checkNo :: string
  listing_warehouseId :: ident
  listing_status :: string
  totalItems :: nat
  differenceItems :: nat

definition getStockChecks :: "nat \<Rightarrow> nat \<Rightarrow> db \<Rightarrow> check_listing list \<times> nat" where
  "getStockChecks page pageSize s =
    (let records = findManyStockChecks ((page - 1) * pageSize) pageSize False s;
         total = length (stockChecks s)
     in (map (\<lambda>stockCheck.
               \<lparr>listing_id = fetched_id stockCheck,
                listing_checkNo = fetched_checkNo stockCheck,
                listing_warehouseId = fetched_warehouseId stockCheck,
                listing_status = fetched_status stockCheck,
                totalItems =
                  (case fetched_items stockCheck of None \<Rightarrow> 0 | Some its \<Rightarrow> length its),
                differenceItems =
                  (case fetched_items stockCheck of
                     None \<Rightarrow> 0
                   | Some its \<Rightarrow> length (filter (\<lambda>item. difference item \<noteq> 0) its))\<rparr>)
             records,
         total))"

text \<open>\<open>getStockCheckItems\<close>: the detail query, which does include the lines.\<close>

definition getStockCheckItems :: "ident \<Rightarrow> db \<Rightarrow> error + check_item list" where
  "getStockCheckItems i s =
    (case find (\<lambda>d. check_id d = i) (stockChecks s) of
       None \<Rightarrow> Inl DocumentNotFound
     | Some stockCheck \<Rightarrow> Inr (check_items stockCheck))"

subsection \<open>The specification's signed adjustment\<close>

text \<open>
  The ledger operation \<open>applyDelta(warehouseId, productId, delta)\<close> in the words of the
  specification: a positive delta is an increase, a negative delta a decrease of
  \<open>|delta|\<close> with the decrease's own checks, and a zero delta does nothing. The second
  function applies the deltas of a list of (product, delta) pairs in order and stops at
  the first failure.
\<close>

definition applyDelta_spec :: "ident \<Rightarrow> ident \<Rightarrow> int \<Rightarrow> inventory \<Rightarrow> error + inventory" where
  "applyDelta_spec wid pid delta tbl =
    (if delta = 0 then Inr tbl
     else if 0 < delta then increaseInventoryInTransaction wid pid delta tbl
     else decreaseInventoryInTransaction wid pid (- delta) tbl)"

fun applyDeltas_spec :: "ident \<Rightarrow> (ident \<times> int) list \<Rightarrow> inventory \<Rightarrow> error + inventory" where
  "applyDeltas_spec wid [] tbl = Inr tbl"
| "applyDeltas_spec wid ((pid, delta) # rest) tbl =
    (case applyDelta_spec wid pid delta tbl of
       Inl e \<Rightarrow> Inl e
     | Inr tbl' \<Rightarrow> applyDeltas_spec wid rest tbl')"

section \<open>The operations the routes expose\<close>

text \<open>
  Every state-changing call the inventory routes make on a movement document; the list
  and detail queries return no new state.
\<close>

datatype operation =
    CreateStockIn ident string stock_input
  | UpdateStockIn ident stock_patch
  | CompleteStockIn ident
  | CreateStockOut ident string stock_input
  | UpdateStockOut ident stock_patch
  | CompleteStockOut ident
  | CreateStockTransfer ident string transfer_input
  | UpdateStockTransfer ident transfer_patch
  | CompleteStockTransfer ident
  | CreateStockCheck ident string check_input
  | UpdateStockCheck ident check_patch
  | CompleteStockCheck ident

fun perform :: "operation \<Rightarrow> db \<Rightarrow> db" where
  "perform (CreateStockIn newId now data) s = snd (createStockIn newId now data s)"
| "perform (UpdateStockIn i data) s = snd (updateStockIn i data s)"
| "perform (CompleteStockIn i) s = snd (completeStockIn i s)"
| "perform (CreateStockOut newId now data) s = snd (createStockOut newId now data s)"
| "perform (UpdateStockOut i data) s = snd (updateStockOut i data s)"
| "perform (CompleteStockOut i) s = snd (completeStockOut i s)"
| "perform (CreateStockTransfer newId now data) s = snd (createStockTransfer newId now data s)"
| "perform (UpdateStockTransfer i data) s = snd (updateStockTransfer i data s)"
| "perform (CompleteStockTransfer i) s = snd (completeStockTransfer i s)"
| "perform (CreateStockCheck newId now data) s = snd (createStockCheck newId now data s)"
| "perform (UpdateStockCheck i data) s = snd (updateStockCheck i data s)"
| "perform (CompleteStockCheck i) s = snd (completeStockCheck i s)"

section \<open>A sample state\<close>

text \<open>
  Two warehouses and two products; one balance row for (W1, P1) with 10 on hand, 7 of
  them available and 3 reserved; and documents of each type. The stock-out out-3 has a
  line with a negative quantity: the route's schema admits positive quantities only,
  the service itself takes any number.
\<close>

definition demo_ledger :: inventory where
  "demo_ledger =
     Map.empty((''W1'', ''P1'') \<mapsto>
       \<lparr>quantity = 10, availableQuantity = 7, reservedQuantity = 3\<rparr>)"

definition demo_db :: db where
  "demo_db =
    \<lparr>inventory = demo_ledger,
     warehouses = {''W1'', ''W2''},
     products = {''P1'', ''P2''},
     stockIns =
       [\<lparr>doc_id = ''in-1'', docNo = ''IN20240521001'', warehouseId = ''W1'',
         status = ''draft'', items = [\<lparr>productId = ''P1'', item_quantity = 10\<rparr>]\<rparr>,
        \<lparr>doc_id = ''in-2'', docNo = ''IN20240521002'', warehouseId = ''W1'',
         status = ''completed'', items = [\<lparr>productId = ''P1'', item_quantity = 4\<rparr>]\<rparr>,
        \<lparr>doc_id = ''in-3'', docNo = ''IN20240521003'', warehouseId = ''W2'',
         status = ''cancelled'', items = [\<lparr>productId = ''P2'', item_quantity = 1\<rparr>]\<rparr>],
     stockOuts =
       [\<lparr>doc_id = ''out-1'', docNo = ''OUT20240521001'', warehouseId = ''W1'',
         status = ''draft'', items = [\<lparr>productId = ''P1'', item_quantity = 2\<rparr>,
                                     \<lparr>productId = ''P1'', item_quantity = 8\<rparr>]\<rparr>,
        \<lparr>doc_id = ''out-2'', docNo = ''OUT20240521002'', warehouseId = ''W1'',
         status = ''draft'', items = [\<lparr>productId = ''P2'', item_quantity = 1\<rparr>]\<rparr>,
        \<lparr>doc_id = ''out-3'', docNo = ''OUT20240521003'', warehouseId = ''W1'',
         status = ''draft'', items = [\<lparr>productId = ''P1'', item_quantity = - 10\<rparr>,
                                     \<lparr>productId = ''P1'', item_quantity = 15\<rparr>]\<rparr>],
     stockTransfers =
       [\<lparr>transfer_id = ''tr-1'', transferNo = ''TR20240521001'',
         fromWarehouseId = ''W1'', toWarehouseId = ''W2'', transfer_status = ''draft'',
         transfer_items = [\<lparr>productId = ''P1'', item_quantity = 3\<rparr>]\<rparr>,
        \<lparr>transfer_id = ''tr-2'', transferNo = ''TR20240521002'',
         fromWarehouseId = ''W1'', toWarehouseId = ''W2'', transfer_status = ''draft'',
         transfer_items = [\<lparr>productId = ''P1'', item_quantity = 8\<rparr>]\<rparr>],
     stockChecks =
       [\<lparr>check_id = ''ck-1'', checkNo = ''CK20240521001'', check_warehouseId = ''W1'',
         check_status = ''draft'',
         check_items = [\<lparr>check_productId = ''P1'', bookQuantity = 10, actualQuantity = 7,
                          difference = - 3\<rparr>,
                        \<lparr>check_productId = ''P2'', bookQuantity = 0, actualQuantity = 5,
                          difference = 5\<rparr>]\<rparr>]\<rparr>"

text \<open>
  A second state, for the terminal statuses: the stock-ins of the sample state (in-2 is
  completed, in-3 cancelled) and one closed document in each other table.
\<close>

definition demo_archive :: db where
  "demo_archive =
    demo_db\<lparr>
      stockOuts :=
        [\<lparr>doc_id = ''out-9'', docNo = ''OUT20240520001'', warehouseId = ''W1'',
          status = ''completed'', items = [\<lparr>productId = ''P1'', item_quantity = 1\<rparr>]\<rparr>],
      stockTransfers :=
        [\<lparr>transfer_id = ''tr-9'', transferNo = ''TR20240520001'',
          fromWarehouseId = ''W1'', toWarehouseId = ''W2'', transfer_status = ''cancelled'',
          transfer_items = [\<lparr>productId = ''P1'', item_quantity = 1\<rparr>]\<rparr>],
      stockChecks :=
        [\<lparr>check_id = ''ck-9'', checkNo = ''CK20240520001'', check_warehouseId = ''W1'',
          check_status = ''completed'',
          check_items = [\<lparr>check_productId = ''P1'', bookQuantity = 10, actualQuantity = 9,
                           difference = - 1\<rparr>]\<rparr>]\<rparr>"

definition demo_patch :: stock_patch where
  "demo_patch = \<lparr>patch_warehouseId = Some ''W2'', patch_items = Some []\<rparr>"

definition demo_calls :: "operation list" where
  "demo_calls =
    [UpdateStockIn ''in-2'' demo_patch,
     CompleteStockIn ''in-2'',
     CompleteStockIn ''in-1'',
     UpdateStockOut ''out-9'' demo_patch,
     CompleteStockOut ''out-9'',
     UpdateStockTransfer ''tr-9''
       \<lparr>patch_fromWarehouseId = None, patch_toWarehouseId = None,
        patch_transfer_items = Some []\<rparr>,
     CompleteStockTransfer ''tr-9'',
     UpdateStockCheck ''ck-9'' \<lparr>patch_check_warehouseId = None, patch_check_items = Some []\<rparr>,
     CompleteStockCheck ''ck-9'',
     CreateStockIn ''in-2'' ''2024-05-22T09:00:00.000Z''
       \<lparr>input_warehouseId = ''W1'', input_items = []\<rparr>]"

definition demo_morning :: string where
  "demo_morning = ''2024-05-21T08:30:00.000Z''"

definition demo_evening :: string where
  "demo_evening = ''2024-05-21T17:45:10.250Z''"

section \<open>The balance invariant\<close>

lemma ledger_ok_update: "ledger_ok tbl \<Longrightarrow> balanced row \<Longrightarrow> ledger_ok (tbl(k \<mapsto> row))"
  by (simp add: ledger_ok_def)

lemma ledger_ok_row: "ledger_ok tbl \<Longrightarrow> tbl k = Some row \<Longrightarrow> balanced row"
  by (cases k) (auto simp: ledger_ok_def)

lemma increase_keeps_ledger_ok:
  assumes "ledger_ok tbl" and "increaseInventoryInTransaction wid pid qty tbl = Inr tbl'"
  shows "ledger_ok tbl'"
proof (cases "tbl (wid, pid)")
  case None
  with assms(2) have "tbl' = tbl((wid, pid) \<mapsto>
      \<lparr>quantity = qty, availableQuantity = qty, reservedQuantity = 0\<rparr>)"
    by (simp add: increaseInventoryInTransaction_def)
  then show ?thesis using assms(1) by (simp add: ledger_ok_update balanced_def)
next
  case (Some existing)
  with assms(2) have "tbl' = tbl((wid, pid) \<mapsto>
      existing\<lparr>quantity := quantity existing + qty,
               availableQuantity := availableQuantity existing + qty\<rparr>)"
    by (simp add: increaseInventoryInTransaction_def)
  moreover have "balanced existing" using assms(1) Some by (rule ledger_ok_row)
  ultimately show ?thesis using assms(1) by (simp add: ledger_ok_update balanced_def)
qed

lemma decrease_keeps_ledger_ok:
  assumes "ledger_ok tbl" and "decreaseInventoryInTransaction wid pid qty tbl = Inr tbl'"
  shows "ledger_ok tbl'"
proof (cases "tbl (wid, pid)")
  case None
  with assms(2) show ?thesis by (simp add: decreaseInventoryInTransaction_def)
next
  case (Some existing)
  with assms(2) have "tbl' = tbl((wid, pid) \<mapsto>
      existing\<lparr>quantity := quantity existing - qty,
               availableQuantity := availableQuantity existing - qty\<rparr>)"
    by (simp add: decreaseInventoryInTransaction_def split: if_splits)
  moreover have "balanced existing" using assms(1) Some by (rule ledger_ok_row)
  ultimately show ?thesis using assms(1) by (simp add: ledger_ok_update balanced_def)
qed

lemma updateQuantity_keeps_ledger_ok:
  assumes "ledger_ok tbl"
  shows "ledger_ok (snd (updateQuantity wid pid qty None None tbl))"
proof (cases "tbl (wid, pid)")
  case None
  then show ?thesis using assms
    by (simp add: updateQuantity_def Let_def ledger_ok_update balanced_def)
next
  case (Some existing)
  moreover have "balanced existing" using assms Some by (rule ledger_ok_row)
  ultimately show ?thesis using assms
    by (simp add: updateQuantity_def Let_def ledger_ok_update balanced_def)
qed

lemma increaseInventory_keeps_ledger_ok:
  "ledger_ok (inventory s) \<Longrightarrow> ledger_ok (inventory (snd (increaseInventory wid pid qty s)))"
  by (simp add: increaseInventory_def updateQuantity_keeps_ledger_ok)

lemma decreaseInventory_keeps_ledger_ok:
  "ledger_ok (inventory s) \<Longrightarrow> ledger_ok (inventory (snd (decreaseInventory wid pid qty s)))"
  by (simp add: decreaseInventory_def updateQuantity_keeps_ledger_ok split: option.splits)

lemma demo_ledger_ok: "ledger_ok demo_ledger"
  by (simp add: ledger_ok_def demo_ledger_def balanced_def)

text \<open>
  C1, as the code has it. If every balance row satisfies
  \<open>quantity = availableQuantity + reservedQuantity\<close>, then every row still does after
  \<open>increaseInventoryInTransaction\<close>, after a successful \<open>decreaseInventoryInTransaction\<close>,
  after \<open>updateQuantity\<close> called without its two optional arguments, and after the
  stand-alone \<open>increaseInventory\<close> and \<open>decreaseInventory\<close>, which are the only callers of
  \<open>updateQuantity\<close> and pass no optional argument. A supplied \<open>availableQuantity\<close> is
  stored as it is, whatever the other columns become.
\<close>

theorem ledger_invariant_preserved:
  assumes "ledger_ok (inventory s)"
  shows "(\<forall>tbl'. increaseInventoryInTransaction wid pid qty (inventory s) = Inr tbl' \<longrightarrow> ledger_ok tbl')
       \<and> (\<forall>tbl'. decreaseInventoryInTransaction wid pid qty (inventory s) = Inr tbl' \<longrightarrow> ledger_ok tbl')
       \<and> ledger_ok (snd (updateQuantity wid pid qty None None (inventory s)))
       \<and> ledger_ok (inventory (snd (increaseInventory wid pid qty s)))
       \<and> ledger_ok (inventory (snd (decreaseInventory wid pid qty s)))
       \<and> (\<forall>a r. \<exists>row. snd (updateQuantity wid pid qty (Some a) r (inventory s)) (wid, pid) = Some row
                     \<and> availableQuantity row = a)"
proof (intro conjI allI impI)
  fix tbl' assume "increaseInventoryInTransaction wid pid qty (inventory s) = Inr tbl'"
  with assms show "ledger_ok tbl'" by (rule increase_keeps_ledger_ok)
next
  fix tbl' assume "decreaseInventoryInTransaction wid pid qty (inventory s) = Inr tbl'"
  with assms show "ledger_ok tbl'" by (rule decrease_keeps_ledger_ok)
next
  show "ledger_ok (snd (updateQuantity wid pid qty None None (inventory s)))"
    using assms by (rule updateQuantity_keeps_ledger_ok)
next
  show "ledger_ok (inventory (snd (increaseInventory wid pid qty s)))"
    using assms by (rule increaseInventory_keeps_ledger_ok)
next
  show "ledger_ok (inventory (snd (decreaseInventory wid pid qty s)))"
    using assms by (rule decreaseInventory_keeps_ledger_ok)
next
  fix a r
  show "\<exists>row. snd (updateQuantity wid pid qty (Some a) r (inventory s)) (wid, pid) = Some row
               \<and> availableQuantity row = a"
    by (simp add: updateQuantity_def Let_def split: option.splits)
qed

text \<open>
  The theorem at the sample state, with 5 units of P1 in warehouse W1: the increase and
  the decrease both return a table, and both tables satisfy the invariant.
\<close>

theorem ledger_invariant_preserved_witness:
  "ledger_ok (inventory demo_db)
   \<and> increaseInventoryInTransaction ''W1'' ''P1'' 5 (inventory demo_db) =
       Inr (demo_ledger((''W1'', ''P1'') \<mapsto>
              \<lparr>quantity = 15, availableQuantity = 12, reservedQuantity = 3\<rparr>))
   \<and> ledger_ok (demo_ledger((''W1'', ''P1'') \<mapsto>
              \<lparr>quantity = 15, availableQuantity = 12, reservedQuantity = 3\<rparr>))
   \<and> decreaseInventoryInTransaction ''W1'' ''P1'' 5 (inventory demo_db) =
       Inr (demo_ledger((''W1'', ''P1'') \<mapsto>
              \<lparr>quantity = 5, availableQuantity = 2, reservedQuantity = 3\<rparr>))
   \<and> ledger_ok (demo_ledger((''W1'', ''P1'') \<mapsto>
              \<lparr>quantity = 5, availableQuantity = 2, reservedQuantity = 3\<rparr>))
   \<and> ledger_ok (snd (updateQuantity ''W1'' ''P1'' 5 None None (inventory demo_db)))
   \<and> ledger_ok (inventory (snd (increaseInventory ''W1'' ''P1'' 5 demo_db)))
   \<and> ledger_ok (inventory (snd (decreaseInventory ''W1'' ''P1'' 5 demo_db)))"
proof -
  have h: "ledger_ok (inventory demo_db)"
    by (simp add: demo_db_def demo_ledger_ok)
  have inc: "increaseInventoryInTransaction ''W1'' ''P1'' 5 (inventory demo_db) =
       Inr (demo_ledger((''W1'', ''P1'') \<mapsto>
              \<lparr>quantity = 15, availableQuantity = 12, reservedQuantity = 3\<rparr>))"
    by (simp add: increaseInventoryInTransaction_def demo_db_def demo_ledger_def)
  have dec: "decreaseInventoryInTransaction ''W1'' ''P1'' 5 (inventory demo_db) =
       Inr (demo_ledger((''W1'', ''P1'') \<mapsto>
              \<lparr>quantity = 5, availableQuantity = 2, reservedQuantity = 3\<rparr>))"
    by (simp add: decreaseInventoryInTransaction_def demo_db_def demo_ledger_def)
  from ledger_invariant_preserved [OF h, of "''W1''" "''P1''" 5] h inc dec
  show ?thesis by simp
qed

text \<open>
  C1 as stated fails for the optional arguments of \<open>updateQuantity\<close>. On the sample
  table, which satisfies the invariant, creating the row (W1, P2) with quantity 5 and
  \<open>availableQuantity = 1\<close> stores (5, 1, 0), and updating the row (W1, P1) = (10, 7, 3)
  with quantity 0 and \<open>reservedQuantity = 2\<close> stores (10, 5, 2).
\<close>

theorem updateQuantity_override_counterexample:
  "ledger_ok demo_ledger
   \<and> \<not> ledger_ok (snd (updateQuantity ''W1'' ''P2'' 5 (Some 1) None demo_ledger))
   \<and> \<not> ledger_ok (snd (updateQuantity ''W1'' ''P1'' 0 None (Some 2) demo_ledger))"
proof -
  have "\<not> balanced \<lparr>quantity = 5, availableQuantity = 1, reservedQuantity = 0\<rparr>"
    and "\<not> balanced \<lparr>quantity = 10, availableQuantity = 5, reservedQuantity = 2\<rparr>"
    by (simp_all add: balanced_def)
  moreover have "snd (updateQuantity ''W1'' ''P2'' 5 (Some 1) None demo_ledger) (''W1'', ''P2'')
      = Some \<lparr>quantity = 5, availableQuantity = 1, reservedQuantity = 0\<rparr>"
    by (simp add: updateQuantity_def Let_def demo_ledger_def)
  moreover have "snd (updateQuantity ''W1'' ''P1'' 0 None (Some 2) demo_ledger) (''W1'', ''P1'')
      = Some \<lparr>quantity = 10, availableQuantity = 5, reservedQuantity = 2\<rparr>"
    by (simp add: updateQuantity_def Let_def demo_ledger_def)
  ultimately show ?thesis using demo_ledger_ok ledger_ok_row by blast
qed

section \<open>The increase has no precondition\<close>

text \<open>
  C9. For every quantity, positive or not, \<open>increaseInventoryInTransaction\<close> returns
  without error: it creates the missing row with \<open>quantity = availableQuantity = qty\<close> and
  \<open>reservedQuantity = 0\<close>, or adds \<open>qty\<close> to both columns of the existing row; with a
  negative \<open>qty\<close> both columns of an existing row become smaller, whatever they held.
\<close>

theorem increase_accepts_any_quantity:
  "increaseInventoryInTransaction wid pid qty tbl =
     Inr (tbl((wid, pid) \<mapsto>
       (case tbl (wid, pid) of
          None \<Rightarrow> \<lparr>quantity = qty, availableQuantity = qty, reservedQuantity = 0\<rparr>
        | Some existing \<Rightarrow> existing\<lparr>quantity := quantity existing + qty,
                                  availableQuantity := availableQuantity existing + qty\<rparr>)))
   \<and> (\<forall>existing. tbl (wid, pid) = Some existing \<and> qty < 0 \<longrightarrow>
        (\<exists>tbl' row. increaseInventoryInTransaction wid pid qty tbl = Inr tbl'
           \<and> tbl' (wid, pid) = Some row
           \<and> quantity row < quantity existing
           \<and> availableQuantity row < availableQuantity existing))"
  by (simp add: increaseInventoryInTransaction_def split: option.splits)

text \<open>
  At the sample table an "increase" of \<open>- 20\<close> succeeds and leaves the row of (W1, P1)
  at (-10, -13, 3).
\<close>

theorem increase_accepts_any_quantity_witness:
  "demo_ledger (''W1'', ''P1'') =
     Some \<lparr>quantity = 10, availableQuantity = 7, reservedQuantity = 3\<rparr>
   \<and> (- 20 :: int) < 0
   \<and> increaseInventoryInTransaction ''W1'' ''P1'' (- 20) demo_ledger =
       Inr (demo_ledger((''W1'', ''P1'') \<mapsto>
              \<lparr>quantity = - 10, availableQuantity = - 13, reservedQuantity = 3\<rparr>))"
proof -
  have row: "demo_ledger (''W1'', ''P1'') =
     Some \<lparr>quantity = 10, availableQuantity = 7, reservedQuantity = 3\<rparr>"
    by (simp add: demo_ledger_def)
  from increase_accepts_any_quantity [of "''W1''" "''P1''" "- 20" demo_ledger] row
  show ?thesis by simp
qed

section \<open>The stock-check list\<close>

text \<open>
  C10. Every record returned by \<open>getStockChecks\<close> has \<open>totalItems = 0\<close> and
  \<open>differenceItems = 0\<close>, whatever lines the document has: the list query includes the
  warehouse only, so the fetched rows carry no lines.
\<close>

theorem list_counts_zero:
  "\<forall>r \<in> set (fst (getStockChecks page pageSize s)). totalItems r = 0 \<and> differenceItems r = 0"
  by (auto simp: getStockChecks_def findManyStockChecks_def Let_def)

text \<open>
  The sample state holds one stock check with two lines, both with a difference; the
  first page lists it with both counts 0, while the detail query returns its two lines.
\<close>

theorem list_counts_zero_witness:
  "map listing_id (fst (getStockChecks 1 10 demo_db)) = [''ck-1'']
   \<and> map totalItems (fst (getStockChecks 1 10 demo_db)) = [0]
   \<and> map differenceItems (fst (getStockChecks 1 10 demo_db)) = [0]
   \<and> getStockCheckItems ''ck-1'' demo_db =
       Inr [\<lparr>check_productId = ''P1'', bookQuantity = 10, actualQuantity = 7, difference = - 3\<rparr>,
            \<lparr>check_productId = ''P2'', bookQuantity = 0, actualQuantity = 5, difference = 5\<rparr>]"
proof -
  have ids: "map listing_id (fst (getStockChecks 1 10 demo_db)) = [''ck-1'']"
    by (simp add: getStockChecks_def findManyStockChecks_def Let_def demo_db_def)
  then obtain r where r: "fst (getStockChecks 1 10 demo_db) = [r]"
    by (auto simp: map_eq_Cons_conv)
  with list_counts_zero [of 1 10 demo_db]
  have zero: "totalItems r = 0 \<and> differenceItems r = 0" by simp
  have detail: "getStockCheckItems ''ck-1'' demo_db =
       Inr [\<lparr>check_productId = ''P1'', bookQuantity = 10, actualQuantity = 7, difference = - 3\<rparr>,
            \<lparr>check_productId = ''P2'', bookQuantity = 0, actualQuantity = 5, difference = 5\<rparr>]"
    by (simp add: getStockCheckItems_def demo_db_def)
  from ids r zero detail show ?thesis by simp
qed

section \<open>The two ledger operations and the loops over lines\<close>

lemma increase_result:
  "increaseInventoryInTransaction wid pid qty tbl =
     Inr (tbl((wid, pid) \<mapsto>
       (case tbl (wid, pid) of
          None \<Rightarrow> \<lparr>quantity = qty, availableQuantity = qty, reservedQuantity = 0\<rparr>
        | Some existing \<Rightarrow> existing\<lparr>quantity := quantity existing + qty,
                                  availableQuantity := availableQuantity existing + qty\<rparr>)))"
  by (simp add: increaseInventoryInTransaction_def split: option.splits)

lemma stockInLoop_returns: "\<exists>tbl'. stockInLoop wid its tbl = Inr tbl'"
  by (induction its arbitrary: tbl) (simp_all add: increase_result)

lemma stockInLoop_other_key:
  "stockInLoop wid its tbl = Inr tbl' \<Longrightarrow> filter (\<lambda>it. productId it = P) its = [] \<or> w \<noteq> wid
     \<Longrightarrow> tbl' (w, P) = tbl (w, P)"
proof (induction its arbitrary: tbl)
  case Nil
  then show ?case by simp
next
  case (Cons item rest)
  let ?t1 = "tbl((wid, productId item) \<mapsto>
       (case tbl (wid, productId item) of
          None \<Rightarrow> \<lparr>quantity = item_quantity item, availableQuantity = item_quantity item, reservedQuantity = 0\<rparr>
        | Some existing \<Rightarrow> existing\<lparr>quantity := quantity existing + item_quantity item,
                                  availableQuantity := availableQuantity existing + item_quantity item\<rparr>))"
  from Cons.prems(1) have loop: "stockInLoop wid rest ?t1 = Inr tbl'"
    by (simp add: increase_result)
  from Cons.prems(2) have rest: "filter (\<lambda>it. productId it = P) rest = [] \<or> w \<noteq> wid"
    by (auto split: if_splits)
  from Cons.prems(2) have key: "(w, P) \<noteq> (wid, productId item)"
    by (auto split: if_splits)
  from Cons.IH [OF loop rest] key show ?case by auto
qed

lemma stockInLoop_single_line:
  "stockInLoop wid its tbl = Inr tbl' \<Longrightarrow>
   filter (\<lambda>it. productId it = P) its = [\<lparr>productId = P, item_quantity = q\<rparr>] \<Longrightarrow>
   tbl' (wid, P) = Some (case tbl (wid, P) of
          None \<Rightarrow> \<lparr>quantity = q, availableQuantity = q, reservedQuantity = 0\<rparr>
        | Some existing \<Rightarrow> existing\<lparr>quantity := quantity existing + q,
                                  availableQuantity := availableQuantity existing + q\<rparr>)"
proof (induction its arbitrary: tbl)
  case Nil
  then show ?case by simp
next
  case (Cons item rest)
  let ?t1 = "tbl((wid, productId item) \<mapsto>
       (case tbl (wid, productId item) of
          None \<Rightarrow> \<lparr>quantity = item_quantity item, availableQuantity = item_quantity item, reservedQuantity = 0\<rparr>
        | Some existing \<Rightarrow> existing\<lparr>quantity := quantity existing + item_quantity item,
                                  availableQuantity := availableQuantity existing + item_quantity item\<rparr>))"
  from Cons.prems(1) have loop: "stockInLoop wid rest ?t1 = Inr tbl'"
    by (simp add: increase_result)
  show ?case
  proof (cases "productId item = P")
    case True
    with Cons.prems(2) have item: "item = \<lparr>productId = P, item_quantity = q\<rparr>"
      and rest: "filter (\<lambda>it. productId it = P) rest = []" by simp_all
    from stockInLoop_other_key [OF loop, of P wid] rest have "tbl' (wid, P) = ?t1 (wid, P)" by simp
    with item True show ?thesis by (cases "tbl (wid, P)") auto
  next
    case False
    with Cons.prems(2) have "filter (\<lambda>it. productId it = P) rest = [\<lparr>productId = P, item_quantity = q\<rparr>]"
      by simp
    from Cons.IH [OF loop this] False show ?thesis by simp
  qed
qed

lemma decrease_success:
  "decreaseInventoryInTransaction wid pid qty tbl = Inr tbl' \<longleftrightarrow>
     (\<exists>existing. tbl (wid, pid) = Some existing \<and> qty \<le> availableQuantity existing
        \<and> tbl' = tbl((wid, pid) \<mapsto>
              existing\<lparr>quantity := quantity existing - qty,
                       availableQuantity := availableQuantity existing - qty\<rparr>))"
  by (auto simp: decreaseInventoryInTransaction_def split: option.splits)

lemma decrease_failure:
  "decreaseInventoryInTransaction wid pid qty tbl = Inl e \<longleftrightarrow>
     (tbl (wid, pid) = None \<and> e = InventoryNotFound)
     \<or> (\<exists>existing. tbl (wid, pid) = Some existing \<and> availableQuantity existing < qty
           \<and> e = InsufficientStock)"
  by (auto simp: decreaseInventoryInTransaction_def split: option.splits)

lemma stockOutLoop_success_needs_stock:
  assumes "stockOutLoop wid its tbl = Inr tbl'"
      and "\<forall>it \<in> set its. 0 \<le> item_quantity it"
      and "line \<in> set its"
  shows "\<exists>row. tbl (wid, productId line) = Some row \<and> item_quantity line \<le> availableQuantity row"
  using assms
proof (induction its arbitrary: tbl)
  case Nil
  then show ?case by simp
next
  case (Cons item rest)
  from Cons.prems(1) obtain t1 where
    step: "decreaseInventoryInTransaction wid (productId item) (item_quantity item) tbl = Inr t1"
    and loop: "stockOutLoop wid rest t1 = Inr tbl'"
    by (auto split: sum.splits)
  from step obtain existing where
    ex: "tbl (wid, productId item) = Some existing"
    and enough: "item_quantity item \<le> availableQuantity existing"
    and t1: "t1 = tbl((wid, productId item) \<mapsto>
              existing\<lparr>quantity := quantity existing - item_quantity item,
                       availableQuantity := availableQuantity existing - item_quantity item\<rparr>)"
    by (auto simp: decrease_success)
  show ?case
  proof (cases "line = item")
    case True
    with ex enough show ?thesis by simp
  next
    case False
    with Cons.prems(3) have "line \<in> set rest" by simp
    with Cons.IH [OF loop] Cons.prems(2) obtain row1 where
      row1: "t1 (wid, productId line) = Some row1"
      and le1: "item_quantity line \<le> availableQuantity row1" by auto
    from Cons.prems(2) have "0 \<le> item_quantity item" by simp
    with row1 le1 t1 ex show ?thesis
      by (cases "productId line = productId item") auto
  qed
qed

lemma stockOutLoop_errors:
  "stockOutLoop wid its tbl = Inl e \<Longrightarrow> e = InsufficientStock \<or> e = InventoryNotFound"
proof (induction its arbitrary: tbl)
  case Nil
  then show ?case by simp
next
  case (Cons item rest)
  then show ?case
    by (auto simp: decrease_failure split: sum.splits)
qed

lemma stockOutLoop_not_found_needs_missing_row:
  "stockOutLoop wid its tbl = Inl InventoryNotFound \<Longrightarrow>
     \<exists>it \<in> set its. tbl (wid, productId it) = None"
proof (induction its arbitrary: tbl)
  case Nil
  then show ?case by simp
next
  case (Cons item rest)
  show ?case
  proof (cases "decreaseInventoryInTransaction wid (productId item) (item_quantity item) tbl")
    case (Inl e)
    with Cons.prems show ?thesis by (auto simp: decrease_failure)
  next
    case (Inr t1)
    with Cons.prems have "stockOutLoop wid rest t1 = Inl InventoryNotFound" by simp
    from Cons.IH [OF this] obtain it where "it \<in> set rest" and "t1 (wid, productId it) = None"
      by blast
    moreover from Inr obtain existing where "tbl (wid, productId item) = Some existing"
      and "t1 = tbl((wid, productId item) \<mapsto>
              existing\<lparr>quantity := quantity existing - item_quantity item,
                       availableQuantity := availableQuantity existing - item_quantity item\<rparr>)"
      by (auto simp: decrease_success)
    ultimately show ?thesis by (auto split: if_splits)
  qed
qed

lemma completeStockOut_open:
  assumes "find (\<lambda>d. doc_id d = i) (stockOuts s) = Some d"
      and "status d \<noteq> ''completed''" and "status d \<noteq> ''cancelled''"
  shows "completeStockOut i s =
           (case stockOutLoop (warehouseId d) (items d) (inventory s) of
              Inl e \<Rightarrow> (Inl e, s)
            | Inr tbl' \<Rightarrow>
                (Inr (), s\<lparr>stockOuts := map (\<lambda>d. if doc_id d = i then d\<lparr>status := ''completed''\<rparr> else d)
                                          (stockOuts s),
                           inventory := tbl'\<rparr>))"
  using assms by (simp add: completeStockOut_def transaction_def Let_def split: sum.splits)

section \<open>Stock-in: the round trip, and completing twice\<close>

lemma find_append_new:
  "i \<notin> f ` set rows \<Longrightarrow> f d = i \<Longrightarrow> find (\<lambda>d. f d = i) (rows @ [d]) = Some d"
  by (induction rows) auto

lemma createStockIn_result:
  assumes "createStockIn newId now data s = (Inr doc, s1)"
  shows "doc = \<lparr>doc_id = newId, docNo = generateInNo ''IN'' now s,
                warehouseId = input_warehouseId data, status = ''draft'', items = input_items data\<rparr>
       \<and> s1 = s\<lparr>stockIns := stockIns s @ [doc]\<rparr>"
  using assms
  by (auto simp: createStockIn_def transaction_def Let_def split: if_splits option.splits)

lemma completeStockIn_open:
  assumes "find (\<lambda>d. doc_id d = i) (stockIns s) = Some d"
      and "status d \<noteq> ''completed''" and "status d \<noteq> ''cancelled''"
      and "stockInLoop (warehouseId d) (items d) (inventory s) = Inr tbl'"
  shows "completeStockIn i s =
           (Inr (), s\<lparr>stockIns := map (\<lambda>d. if doc_id d = i then d\<lparr>status := ''completed''\<rparr> else d) (stockIns s),
                      inventory := tbl'\<rparr>)"
  using assms by (simp add: completeStockIn_def transaction_def Let_def)

text \<open>
  C6. A stock-in is created (under a fresh key) with lines among which product \<open>P\<close>
  occurs in exactly one line, with quantity \<open>q\<close>. Completing it succeeds, and afterwards
  the balance row of (warehouse, \<open>P\<close>) is the row from before the creation with \<open>q\<close> added
  to \<open>quantity\<close> and to \<open>availableQuantity\<close>, or the new row \<open>(q, q, 0)\<close> if there was none.
\<close>

theorem stock_in_round_trip:
  assumes created: "createStockIn newId now data s = (Inr doc, s1)"
      and fresh: "newId \<notin> doc_id ` set (stockIns s)"
      and line: "filter (\<lambda>it. productId it = P) (input_items data) =
                   [\<lparr>productId = P, item_quantity = q\<rparr>]"
  shows "\<exists>s2. completeStockIn newId s1 = (Inr (), s2)
           \<and> inventory s2 (input_warehouseId data, P) =
               Some (case inventory s (input_warehouseId data, P) of
                       None \<Rightarrow> \<lparr>quantity = q, availableQuantity = q, reservedQuantity = 0\<rparr>
                     | Some existing \<Rightarrow>
                         existing\<lparr>quantity := quantity existing + q,
                                  availableQuantity := availableQuantity existing + q\<rparr>)"
proof -
  from createStockIn_result [OF created]
  have doc: "doc = \<lparr>doc_id = newId, docNo = generateInNo ''IN'' now s,
                warehouseId = input_warehouseId data, status = ''draft'', items = input_items data\<rparr>"
    and s1: "s1 = s\<lparr>stockIns := stockIns s @ [doc]\<rparr>" by simp_all
  have found: "find (\<lambda>d. doc_id d = newId) (stockIns s1) = Some doc"
    using fresh doc s1 by (simp add: find_append_new)
  obtain tbl' where loop: "stockInLoop (warehouseId doc) (items doc) (inventory s1) = Inr tbl'"
    using stockInLoop_returns by blast
  have "completeStockIn newId s1 =
      (Inr (), s1\<lparr>stockIns := map (\<lambda>d. if doc_id d = newId then d\<lparr>status := ''completed''\<rparr> else d) (stockIns s1),
                      inventory := tbl'\<rparr>)"
    by (rule completeStockIn_open [OF found _ _ loop]) (simp_all add: doc)
  moreover from loop line have "tbl' (input_warehouseId data, P) =
               Some (case inventory s (input_warehouseId data, P) of
                       None \<Rightarrow> \<lparr>quantity = q, availableQuantity = q, reservedQuantity = 0\<rparr>
                     | Some existing \<Rightarrow>
                         existing\<lparr>quantity := quantity existing + q,
                                  availableQuantity := availableQuantity existing + q\<rparr>)"
    using stockInLoop_single_line [of "input_warehouseId data" "input_items data" "inventory s" tbl' P q]
    by (simp add: doc s1)
  ultimately show ?thesis by simp
qed


text \<open>
  At the sample state: a stock-in of 10 units of P1 into W1 is numbered IN20240521004,
  and completing it takes the row of (W1, P1) from (10, 7, 3) to (20, 17, 3).
\<close>

theorem stock_in_round_trip_witness:
  "createStockIn ''in-4'' ''2024-05-21T08:30:00.000Z''
       \<lparr>input_warehouseId = ''W1'',
        input_items = [\<lparr>productId = ''P1'', item_quantity = 10\<rparr>]\<rparr> demo_db
     = (Inr \<lparr>doc_id = ''in-4'', docNo = ''IN20240521004'', warehouseId = ''W1'',
             status = ''draft'', items = [\<lparr>productId = ''P1'', item_quantity = 10\<rparr>]\<rparr>,
        demo_db\<lparr>stockIns := stockIns demo_db @
          [\<lparr>doc_id = ''in-4'', docNo = ''IN20240521004'', warehouseId = ''W1'',
            status = ''draft'', items = [\<lparr>productId = ''P1'', item_quantity = 10\<rparr>]\<rparr>]\<rparr>)
   \<and> (\<exists>s2. completeStockIn ''in-4''
               (demo_db\<lparr>stockIns := stockIns demo_db @
                  [\<lparr>doc_id = ''in-4'', docNo = ''IN20240521004'', warehouseId = ''W1'',
                    status = ''draft'', items = [\<lparr>productId = ''P1'', item_quantity = 10\<rparr>]\<rparr>]\<rparr>)
              = (Inr (), s2)
         \<and> inventory s2 (''W1'', ''P1'') =
             Some \<lparr>quantity = 20, availableQuantity = 17, reservedQuantity = 3\<rparr>)"
proof -
  let ?data = "\<lparr>input_warehouseId = ''W1'',
        input_items = [\<lparr>productId = ''P1'', item_quantity = 10\<rparr>]\<rparr>"
  let ?doc = "\<lparr>doc_id = ''in-4'', docNo = ''IN20240521004'', warehouseId = ''W1'',
             status = ''draft'', items = [\<lparr>productId = ''P1'', item_quantity = 10\<rparr>]\<rparr>"
  have no: "generateInNo ''IN'' ''2024-05-21T08:30:00.000Z'' demo_db = ''IN20240521004''"
    by code_simp
  have wh: "''W1'' \<in> warehouses demo_db" and pr: "''P1'' \<in> products demo_db"
    by (simp_all add: demo_db_def)
  have created: "createStockIn ''in-4'' ''2024-05-21T08:30:00.000Z'' ?data demo_db
      = (Inr ?doc, demo_db\<lparr>stockIns := stockIns demo_db @ [?doc]\<rparr>)"
    by (simp add: createStockIn_def missing_product_def transaction_def Let_def no wh pr)
  have fresh: "''in-4'' \<notin> doc_id ` set (stockIns demo_db)"
    by (simp add: demo_db_def)
  have line: "filter (\<lambda>it. productId it = ''P1'') (input_items ?data) =
                [\<lparr>productId = ''P1'', item_quantity = 10\<rparr>]"
    by simp
  have before: "inventory demo_db (''W1'', ''P1'') =
      Some \<lparr>quantity = 10, availableQuantity = 7, reservedQuantity = 3\<rparr>"
    by (simp add: demo_db_def demo_ledger_def)
  from stock_in_round_trip [OF created fresh line] before created
  show ?thesis by simp
qed

lemma find_after_completion:
  "find (\<lambda>d. doc_id d = i) (map (\<lambda>d. if doc_id d = i then d\<lparr>status := st\<rparr> else d) rows)
     = map_option (\<lambda>d. d\<lparr>status := st\<rparr>) (find (\<lambda>d. doc_id d = i) rows)"
  by (induction rows) auto

text \<open>
  C4, for the stock-in service. \<open>completeStockIn\<close> on a missing id fails with
  \<open>DocumentNotFound\<close>, on a completed document with \<open>AlreadyCompleted\<close>, on a cancelled
  one with \<open>AlreadyCancelled\<close>, each time leaving the whole state as it was. On a draft
  document the first call succeeds, marks the document completed and leaves the
  balances the increases of its lines produce; the second call on the resulting state
  fails with \<open>AlreadyCompleted\<close> and leaves that state as it is.
\<close>

theorem complete_applies_once:
  "(find (\<lambda>d. doc_id d = i) (stockIns s) = None \<longrightarrow>
      completeStockIn i s = (Inl DocumentNotFound, s))
   \<and> (\<forall>d. find (\<lambda>d. doc_id d = i) (stockIns s) = Some d \<and> status d = ''completed'' \<longrightarrow>
      completeStockIn i s = (Inl AlreadyCompleted, s))
   \<and> (\<forall>d. find (\<lambda>d. doc_id d = i) (stockIns s) = Some d \<and> status d = ''cancelled'' \<longrightarrow>
      completeStockIn i s = (Inl AlreadyCancelled, s))
   \<and> (\<forall>d. find (\<lambda>d. doc_id d = i) (stockIns s) = Some d \<and> status d = ''draft'' \<longrightarrow>
      (\<exists>s1. completeStockIn i s = (Inr (), s1)
         \<and> find (\<lambda>d. doc_id d = i) (stockIns s1) = Some (d\<lparr>status := ''completed''\<rparr>)
         \<and> stockInLoop (warehouseId d) (items d) (inventory s) = Inr (inventory s1)
         \<and> completeStockIn i s1 = (Inl AlreadyCompleted, s1)))"
proof (intro conjI allI impI)
  assume "find (\<lambda>d. doc_id d = i) (stockIns s) = None"
  then show "completeStockIn i s = (Inl DocumentNotFound, s)"
    by (simp add: completeStockIn_def)
next
  fix d assume "find (\<lambda>d. doc_id d = i) (stockIns s) = Some d \<and> status d = ''completed''"
  then show "completeStockIn i s = (Inl AlreadyCompleted, s)"
    by (simp add: completeStockIn_def)
next
  fix d assume "find (\<lambda>d. doc_id d = i) (stockIns s) = Some d \<and> status d = ''cancelled''"
  then show "completeStockIn i s = (Inl AlreadyCancelled, s)"
    by (simp add: completeStockIn_def)
next
  fix d assume "find (\<lambda>d. doc_id d = i) (stockIns s) = Some d \<and> status d = ''draft''"
  then have found: "find (\<lambda>d. doc_id d = i) (stockIns s) = Some d"
    and draft: "status d = ''draft''" by simp_all
  obtain tbl' where loop: "stockInLoop (warehouseId d) (items d) (inventory s) = Inr tbl'"
    using stockInLoop_returns by blast
  let ?s1 = "s\<lparr>stockIns := map (\<lambda>d. if doc_id d = i then d\<lparr>status := ''completed''\<rparr> else d) (stockIns s),
               inventory := tbl'\<rparr>"
  have first: "completeStockIn i s = (Inr (), ?s1)"
    by (rule completeStockIn_open [OF found _ _ loop]) (simp_all add: draft)
  have found1: "find (\<lambda>d. doc_id d = i) (stockIns ?s1) = Some (d\<lparr>status := ''completed''\<rparr>)"
    by (simp add: find_after_completion found)
  then have second: "completeStockIn i ?s1 = (Inl AlreadyCompleted, ?s1)"
    by (simp add: completeStockIn_def)
  from first found1 loop second
  show "\<exists>s1. completeStockIn i s = (Inr (), s1)
         \<and> find (\<lambda>d. doc_id d = i) (stockIns s1) = Some (d\<lparr>status := ''completed''\<rparr>)
         \<and> stockInLoop (warehouseId d) (items d) (inventory s) = Inr (inventory s1)
         \<and> completeStockIn i s1 = (Inl AlreadyCompleted, s1)"
    by (intro exI [of _ ?s1]) simp
qed

text \<open>
  At the sample state: completing the draft stock-in in-1 (10 units of P1 into W1)
  gives the row (20, 17, 3), a second call fails; in-2 is completed, in-3 cancelled,
  in-0 does not exist.
\<close>

theorem complete_applies_once_witness:
  "(\<exists>s1. completeStockIn ''in-1'' demo_db = (Inr (), s1)
       \<and> inventory s1 (''W1'', ''P1'') =
           Some \<lparr>quantity = 20, availableQuantity = 17, reservedQuantity = 3\<rparr>
       \<and> completeStockIn ''in-1'' s1 = (Inl AlreadyCompleted, s1))
   \<and> completeStockIn ''in-2'' demo_db = (Inl AlreadyCompleted, demo_db)
   \<and> completeStockIn ''in-3'' demo_db = (Inl AlreadyCancelled, demo_db)
   \<and> completeStockIn ''in-0'' demo_db = (Inl DocumentNotFound, demo_db)"
proof -
  have f1: "find (\<lambda>d. doc_id d = ''in-1'') (stockIns demo_db) =
      Some \<lparr>doc_id = ''in-1'', docNo = ''IN20240521001'', warehouseId = ''W1'',
            status = ''draft'', items = [\<lparr>productId = ''P1'', item_quantity = 10\<rparr>]\<rparr>"
    by (simp add: demo_db_def)
  have f2: "find (\<lambda>d. doc_id d = ''in-2'') (stockIns demo_db) =
      Some \<lparr>doc_id = ''in-2'', docNo = ''IN20240521002'', warehouseId = ''W1'',
            status = ''completed'', items = [\<lparr>productId = ''P1'', item_quantity = 4\<rparr>]\<rparr>"
    by (simp add: demo_db_def)
  have f3: "find (\<lambda>d. doc_id d = ''in-3'') (stockIns demo_db) =
      Some \<lparr>doc_id = ''in-3'', docNo = ''IN20240521003'', warehouseId = ''W2'',
            status = ''cancelled'', items = [\<lparr>productId = ''P2'', item_quantity = 1\<rparr>]\<rparr>"
    by (simp add: demo_db_def)
  have f0: "find (\<lambda>d. doc_id d = ''in-0'') (stockIns demo_db) = None"
    by (simp add: demo_db_def)
  have loop: "stockInLoop ''W1'' [\<lparr>productId = ''P1'', item_quantity = 10\<rparr>] (inventory demo_db)
      = Inr (demo_ledger((''W1'', ''P1'') \<mapsto>
               \<lparr>quantity = 20, availableQuantity = 17, reservedQuantity = 3\<rparr>))"
    by (simp add: increaseInventoryInTransaction_def demo_db_def demo_ledger_def)
  from complete_applies_once [of "''in-1''" demo_db] f1
  obtain s1 where first: "completeStockIn ''in-1'' demo_db = (Inr (), s1)"
    and applied: "stockInLoop ''W1'' [\<lparr>productId = ''P1'', item_quantity = 10\<rparr>] (inventory demo_db)
                    = Inr (inventory s1)"
    and second: "completeStockIn ''in-1'' s1 = (Inl AlreadyCompleted, s1)"
    by auto
  from applied loop have "inventory s1 = demo_ledger((''W1'', ''P1'') \<mapsto>
               \<lparr>quantity = 20, availableQuantity = 17, reservedQuantity = 3\<rparr>)"
    by simp
  then have "inventory s1 (''W1'', ''P1'') =
           Some \<lparr>quantity = 20, availableQuantity = 17, reservedQuantity = 3\<rparr>"
    by simp
  with first second
  have once: "\<exists>s1. completeStockIn ''in-1'' demo_db = (Inr (), s1)
       \<and> inventory s1 (''W1'', ''P1'') =
           Some \<lparr>quantity = 20, availableQuantity = 17, reservedQuantity = 3\<rparr>
       \<and> completeStockIn ''in-1'' s1 = (Inl AlreadyCompleted, s1)"
    by blast
  from complete_applies_once [of "''in-2''" demo_db] f2
  have done2: "completeStockIn ''in-2'' demo_db = (Inl AlreadyCompleted, demo_db)" by simp
  from complete_applies_once [of "''in-3''" demo_db] f3
  have done3: "completeStockIn ''in-3'' demo_db = (Inl AlreadyCancelled, demo_db)" by simp
  from complete_applies_once [of "''in-0''" demo_db] f0
  have done0: "completeStockIn ''in-0'' demo_db = (Inl DocumentNotFound, demo_db)" by simp
  from once done2 done3 done0 show ?thesis by blast
qed

section \<open>Stock-out: insufficient stock\<close>

text \<open>
  C3, as the code has it. A draft stock-out whose line quantities are not negative
  and one of whose lines asks for more than the \<open>availableQuantity\<close> of its balance row,
  or has no balance row: \<open>completeStockOut\<close> fails and the whole state, document and
  balances, is as before. The error is \<open>InsufficientStock\<close> or \<open>InventoryNotFound\<close>; it is
  \<open>InsufficientStock\<close> when every line of the document has a balance row, and it is
  \<open>InventoryNotFound\<close> when the document is that one line and the row is missing.
\<close>

theorem stock_out_insufficient_rolls_back:
  assumes found: "find (\<lambda>d. doc_id d = i) (stockOuts s) = Some d"
      and draft: "status d = ''draft''"
      and nonneg: "\<forall>it \<in> set (items d). 0 \<le> item_quantity it"
      and line: "line \<in> set (items d)"
      and short: "case inventory s (warehouseId d, productId line) of
                    None \<Rightarrow> True
                  | Some row \<Rightarrow> availableQuantity row < item_quantity line"
  shows "(completeStockOut i s = (Inl InsufficientStock, s)
          \<or> completeStockOut i s = (Inl InventoryNotFound, s))
       \<and> ((\<forall>it \<in> set (items d). inventory s (warehouseId d, productId it) \<noteq> None) \<longrightarrow>
            completeStockOut i s = (Inl InsufficientStock, s))
       \<and> (items d = [line] \<and> inventory s (warehouseId d, productId line) = None \<longrightarrow>
            completeStockOut i s = (Inl InventoryNotFound, s))"
proof -
  have opened: "completeStockOut i s =
           (case stockOutLoop (warehouseId d) (items d) (inventory s) of
              Inl e \<Rightarrow> (Inl e, s)
            | Inr tbl' \<Rightarrow>
                (Inr (), s\<lparr>stockOuts := map (\<lambda>d. if doc_id d = i then d\<lparr>status := ''completed''\<rparr> else d)
                                          (stockOuts s),
                           inventory := tbl'\<rparr>))"
    by (rule completeStockOut_open [OF found]) (simp_all add: draft)
  have "\<nexists>tbl'. stockOutLoop (warehouseId d) (items d) (inventory s) = Inr tbl'"
  proof
    assume "\<exists>tbl'. stockOutLoop (warehouseId d) (items d) (inventory s) = Inr tbl'"
    then obtain tbl' where "stockOutLoop (warehouseId d) (items d) (inventory s) = Inr tbl'" ..
    from stockOutLoop_success_needs_stock [OF this nonneg line] short
    show False by auto
  qed
  then obtain e where failed: "stockOutLoop (warehouseId d) (items d) (inventory s) = Inl e"
    by (cases "stockOutLoop (warehouseId d) (items d) (inventory s)") auto
  from stockOutLoop_errors [OF failed] have kind: "e = InsufficientStock \<or> e = InventoryNotFound" .
  have result: "completeStockOut i s = (Inl e, s)" using opened failed by simp
  have first: "completeStockOut i s = (Inl InsufficientStock, s)
          \<or> completeStockOut i s = (Inl InventoryNotFound, s)"
    using result kind by auto
  have second: "(\<forall>it \<in> set (items d). inventory s (warehouseId d, productId it) \<noteq> None) \<longrightarrow>
            completeStockOut i s = (Inl InsufficientStock, s)"
    using result kind failed stockOutLoop_not_found_needs_missing_row by blast
  have third: "items d = [line] \<and> inventory s (warehouseId d, productId line) = None \<longrightarrow>
            completeStockOut i s = (Inl InventoryNotFound, s)"
    using opened by (auto simp: decreaseInventoryInTransaction_def)
  from first second third show ?thesis by blast
qed

text \<open>
  At the sample state: out-1 asks for 2 and then 8 units of P1 in W1, where 7 are
  available. The first line alone would succeed; the call fails with
  \<open>InsufficientStock\<close> and nothing has changed.
\<close>

theorem stock_out_insufficient_rolls_back_witness:
  "find (\<lambda>d. doc_id d = ''out-1'') (stockOuts demo_db) =
      Some \<lparr>doc_id = ''out-1'', docNo = ''OUT20240521001'', warehouseId = ''W1'',
            status = ''draft'', items = [\<lparr>productId = ''P1'', item_quantity = 2\<rparr>,
                                        \<lparr>productId = ''P1'', item_quantity = 8\<rparr>]\<rparr>
   \<and> inventory demo_db (''W1'', ''P1'') =
       Some \<lparr>quantity = 10, availableQuantity = 7, reservedQuantity = 3\<rparr>
   \<and> completeStockOut ''out-1'' demo_db = (Inl InsufficientStock, demo_db)"
proof -
  let ?d = "\<lparr>doc_id = ''out-1'', docNo = ''OUT20240521001'', warehouseId = ''W1'',
            status = ''draft'', items = [\<lparr>productId = ''P1'', item_quantity = 2\<rparr>,
                                        \<lparr>productId = ''P1'', item_quantity = 8\<rparr>]\<rparr>"
  let ?line = "\<lparr>productId = ''P1'', item_quantity = 8\<rparr>"
  have found: "find (\<lambda>d. doc_id d = ''out-1'') (stockOuts demo_db) = Some ?d"
    by (simp add: demo_db_def)
  have row: "inventory demo_db (''W1'', ''P1'') =
       Some \<lparr>quantity = 10, availableQuantity = 7, reservedQuantity = 3\<rparr>"
    by (simp add: demo_db_def demo_ledger_def)
  have draft: "status ?d = ''draft''" by simp
  have nonneg: "\<forall>it \<in> set (items ?d). 0 \<le> item_quantity it" by simp
  have line: "?line \<in> set (items ?d)" by simp
  have short: "case inventory demo_db (warehouseId ?d, productId ?line) of
                    None \<Rightarrow> True
                  | Some row \<Rightarrow> availableQuantity row < item_quantity ?line"
    by (simp add: row)
  have rows: "\<forall>it \<in> set (items ?d). inventory demo_db (warehouseId ?d, productId it) \<noteq> None"
    by (simp add: row)
  from stock_out_insufficient_rolls_back [OF found draft nonneg line short] rows
  have "completeStockOut ''out-1'' demo_db = (Inl InsufficientStock, demo_db)" by blast
  with found row show ?thesis by simp
qed

text \<open>
  C3 as stated names \<open>InsufficientStock\<close> also for a missing balance row. The draft
  stock-out out-2 of the sample state has one line, 1 unit of P2 in W1, and there is no
  balance row for (W1, P2): the call fails with \<open>InventoryNotFound\<close>, the error of
  \<open>decreaseInventoryInTransaction\<close> for a missing row, not with \<open>InsufficientStock\<close>.
  And C3 as stated speaks of every draft document: out-3 has the lines \<open>- 10\<close> and 15 of
  P1 in W1, where 7 are available; the negative line passes the check and raises the
  balance, so the line of 15 passes too and the call succeeds.
\<close>

theorem stock_out_missing_row_counterexample:
  "find (\<lambda>d. doc_id d = ''out-2'') (stockOuts demo_db) =
      Some \<lparr>doc_id = ''out-2'', docNo = ''OUT20240521002'', warehouseId = ''W1'',
            status = ''draft'', items = [\<lparr>productId = ''P2'', item_quantity = 1\<rparr>]\<rparr>
   \<and> inventory demo_db (''W1'', ''P2'') = None
   \<and> fst (completeStockOut ''out-2'' demo_db) = Inl InventoryNotFound
   \<and> fst (completeStockOut ''out-2'' demo_db) \<noteq> Inl InsufficientStock
   \<and> find (\<lambda>d. doc_id d = ''out-3'') (stockOuts demo_db) =
      Some \<lparr>doc_id = ''out-3'', docNo = ''OUT20240521003'', warehouseId = ''W1'',
            status = ''draft'', items = [\<lparr>productId = ''P1'', item_quantity = - 10\<rparr>,
                                        \<lparr>productId = ''P1'', item_quantity = 15\<rparr>]\<rparr>
   \<and> inventory demo_db (''W1'', ''P1'') =
       Some \<lparr>quantity = 10, availableQuantity = 7, reservedQuantity = 3\<rparr>
   \<and> fst (completeStockOut ''out-3'' demo_db) = Inr ()"
  by (simp add: completeStockOut_def transaction_def decreaseInventoryInTransaction_def
      demo_db_def demo_ledger_def)

section \<open>Transfers\<close>

text \<open>One line of a transfer, when it succeeds.\<close>

lemma transfer_step:
  assumes "stockTransferLoop src dst (item # rest) tbl = Inr tbl'"
  obtains existing where "tbl (src, productId item) = Some existing"
    and "item_quantity item \<le> availableQuantity existing"
    and "stockTransferLoop src dst rest
           ((tbl((src, productId item) \<mapsto>
                existing\<lparr>quantity := quantity existing - item_quantity item,
                         availableQuantity := availableQuantity existing - item_quantity item\<rparr>))
             ((dst, productId item) \<mapsto>
                (case (tbl((src, productId item) \<mapsto>
                        existing\<lparr>quantity := quantity existing - item_quantity item,
                                 availableQuantity := availableQuantity existing - item_quantity item\<rparr>))
                       (dst, productId item) of
                   None \<Rightarrow> \<lparr>quantity = item_quantity item, availableQuantity = item_quantity item,
                             reservedQuantity = 0\<rparr>
                 | Some r \<Rightarrow> r\<lparr>quantity := quantity r + item_quantity item,
                                availableQuantity := availableQuantity r + item_quantity item\<rparr>)))
         = Inr tbl'"
proof -
  from assms obtain t1 where
    dec: "decreaseInventoryInTransaction src (productId item) (item_quantity item) tbl = Inr t1"
    and rest: "(case increaseInventoryInTransaction dst (productId item) (item_quantity item) t1 of
                  Inl e \<Rightarrow> Inl e | Inr t2 \<Rightarrow> stockTransferLoop src dst rest t2) = Inr tbl'"
    by (auto split: sum.splits)
  from dec obtain existing where ex: "tbl (src, productId item) = Some existing"
    and le: "item_quantity item \<le> availableQuantity existing"
    and t1: "t1 = tbl((src, productId item) \<mapsto>
              existing\<lparr>quantity := quantity existing - item_quantity item,
                       availableQuantity := availableQuantity existing - item_quantity item\<rparr>)"
    by (auto simp: decrease_success)
  from rest have "stockTransferLoop src dst rest
      (t1((dst, productId item) \<mapsto>
         (case t1 (dst, productId item) of
            None \<Rightarrow> \<lparr>quantity = item_quantity item, availableQuantity = item_quantity item,
                      reservedQuantity = 0\<rparr>
          | Some r \<Rightarrow> r\<lparr>quantity := quantity r + item_quantity item,
                         availableQuantity := availableQuantity r + item_quantity item\<rparr>))) = Inr tbl'"
    by (simp add: increase_result)
  with ex le t1 that show thesis by blast
qed

lemma stockTransferLoop_other_product:
  "stockTransferLoop src dst its tbl = Inr tbl' \<Longrightarrow>
   filter (\<lambda>it. productId it = P) its = [] \<Longrightarrow> tbl' (w, P) = tbl (w, P)"
proof (induction its arbitrary: tbl)
  case Nil
  then show ?case by simp
next
  case (Cons item rest)
  from Cons.prems(2) have other: "productId item \<noteq> P"
    and rest: "filter (\<lambda>it. productId it = P) rest = []"
    by (auto split: if_splits)
  from Cons.prems(1) show ?case
  proof (rule transfer_step)
    fix existing
    assume "stockTransferLoop src dst rest
           ((tbl((src, productId item) \<mapsto>
                existing\<lparr>quantity := quantity existing - item_quantity item,
                         availableQuantity := availableQuantity existing - item_quantity item\<rparr>))
             ((dst, productId item) \<mapsto>
                (case (tbl((src, productId item) \<mapsto>
                        existing\<lparr>quantity := quantity existing - item_quantity item,
                                 availableQuantity := availableQuantity existing - item_quantity item\<rparr>))
                       (dst, productId item) of
                   None \<Rightarrow> \<lparr>quantity = item_quantity item, availableQuantity = item_quantity item,
                             reservedQuantity = 0\<rparr>
                 | Some r \<Rightarrow> r\<lparr>quantity := quantity r + item_quantity item,
                                availableQuantity := availableQuantity r + item_quantity item\<rparr>)))
         = Inr tbl'"
    from Cons.IH [OF this rest] other show ?thesis by simp
  qed
qed

lemma stockTransferLoop_single_line:
  assumes "stockTransferLoop src dst its tbl = Inr tbl'"
      and "filter (\<lambda>it. productId it = P) its = [\<lparr>productId = P, item_quantity = q\<rparr>]"
      and "src \<noteq> dst"
  shows "\<exists>srcRow. tbl (src, P) = Some srcRow \<and> q \<le> availableQuantity srcRow
           \<and> tbl' (src, P) = Some (srcRow\<lparr>quantity := quantity srcRow - q,
                                           availableQuantity := availableQuantity srcRow - q\<rparr>)
           \<and> tbl' (dst, P) = Some (case tbl (dst, P) of
                  None \<Rightarrow> \<lparr>quantity = q, availableQuantity = q, reservedQuantity = 0\<rparr>
                | Some r \<Rightarrow> r\<lparr>quantity := quantity r + q,
                               availableQuantity := availableQuantity r + q\<rparr>)"
  using assms(1,2)
proof (induction its arbitrary: tbl)
  case Nil
  then show ?case by simp
next
  case (Cons item rest)
  from Cons.prems(1) show ?case
  proof (rule transfer_step)
    fix existing
    assume ex: "tbl (src, productId item) = Some existing"
      and le: "item_quantity item \<le> availableQuantity existing"
      and loop: "stockTransferLoop src dst rest
           ((tbl((src, productId item) \<mapsto>
                existing\<lparr>quantity := quantity existing - item_quantity item,
                         availableQuantity := availableQuantity existing - item_quantity item\<rparr>))
             ((dst, productId item) \<mapsto>
                (case (tbl((src, productId item) \<mapsto>
                        existing\<lparr>quantity := quantity existing - item_quantity item,
                                 availableQuantity := availableQuantity existing - item_quantity item\<rparr>))
                       (dst, productId item) of
                   None \<Rightarrow> \<lparr>quantity = item_quantity item, availableQuantity = item_quantity item,
                             reservedQuantity = 0\<rparr>
                 | Some r \<Rightarrow> r\<lparr>quantity := quantity r + item_quantity item,
                                availableQuantity := availableQuantity r + item_quantity item\<rparr>)))
         = Inr tbl'"
    show ?thesis
    proof (cases "productId item = P")
      case True
      with Cons.prems(2) have item: "item = \<lparr>productId = P, item_quantity = q\<rparr>"
        and rest: "filter (\<lambda>it. productId it = P) rest = []" by simp_all
      from item have pq: "productId item = P" "item_quantity item = q" by simp_all
      from stockTransferLoop_other_product [OF loop rest, of src]
           stockTransferLoop_other_product [OF loop rest, of dst]
           ex le assms(3) pq
      show ?thesis by (cases "tbl (dst, P)") auto
    next
      case False
      with Cons.prems(2) have
        "filter (\<lambda>it. productId it = P) rest = [\<lparr>productId = P, item_quantity = q\<rparr>]" by simp
      from Cons.IH [OF loop this] False show ?thesis by simp
    qed
  qed
qed

lemma completeStockTransfer_open:
  assumes "find (\<lambda>d. transfer_id d = i) (stockTransfers s) = Some d"
      and "transfer_status d \<noteq> ''completed''" and "transfer_status d \<noteq> ''cancelled''"
  shows "completeStockTransfer i s =
           (case stockTransferLoop (fromWarehouseId d) (toWarehouseId d) (transfer_items d) (inventory s) of
              Inl e \<Rightarrow> (Inl e, s)
            | Inr tbl' \<Rightarrow>
                (Inr (), s\<lparr>stockTransfers :=
                             map (\<lambda>d. if transfer_id d = i then d\<lparr>transfer_status := ''completed''\<rparr> else d)
                                 (stockTransfers s),
                           inventory := tbl'\<rparr>))"
  using assms by (simp add: completeStockTransfer_def transaction_def Let_def split: sum.splits)

lemma find_after_transfer_completion:
  "find (\<lambda>d. transfer_id d = i)
        (map (\<lambda>d. if transfer_id d = i then d\<lparr>transfer_status := st\<rparr> else d) rows)
     = map_option (\<lambda>d. d\<lparr>transfer_status := st\<rparr>) (find (\<lambda>d. transfer_id d = i) rows)"
  by (induction rows) auto

text \<open>
  C2. A draft transfer between two different warehouses, among whose lines product
  \<open>P\<close> occurs in exactly one line, with quantity \<open>q\<close>. If \<open>completeStockTransfer\<close> succeeds,
  the document is completed, the source warehouse had a row for \<open>P\<close> with at least \<open>q\<close>
  available, that row has lost \<open>q\<close> in \<open>quantity\<close> and \<open>availableQuantity\<close>, and the
  destination row has gained \<open>q\<close> in both (or is the new row \<open>(q, q, 0)\<close>). If it fails, the
  whole state, status and balances, is as before. It does fail when the source row is
  missing or has less than \<open>q\<close> available, and it does succeed when the document is that
  one line and the source row has at least \<open>q\<close> available.
\<close>

theorem transfer_is_atomic:
  assumes found: "find (\<lambda>d. transfer_id d = i) (stockTransfers s) = Some d"
      and draft: "transfer_status d = ''draft''"
      and apart: "fromWarehouseId d \<noteq> toWarehouseId d"
      and line: "filter (\<lambda>it. productId it = P) (transfer_items d) =
                   [\<lparr>productId = P, item_quantity = q\<rparr>]"
  shows "(\<forall>s'. completeStockTransfer i s = (Inr (), s') \<longrightarrow>
            find (\<lambda>d. transfer_id d = i) (stockTransfers s') = Some (d\<lparr>transfer_status := ''completed''\<rparr>)
            \<and> (\<exists>srcRow. inventory s (fromWarehouseId d, P) = Some srcRow
                  \<and> q \<le> availableQuantity srcRow
                  \<and> inventory s' (fromWarehouseId d, P) =
                      Some (srcRow\<lparr>quantity := quantity srcRow - q,
                                   availableQuantity := availableQuantity srcRow - q\<rparr>)
                  \<and> inventory s' (toWarehouseId d, P) =
                      Some (case inventory s (toWarehouseId d, P) of
                              None \<Rightarrow> \<lparr>quantity = q, availableQuantity = q, reservedQuantity = 0\<rparr>
                            | Some r \<Rightarrow> r\<lparr>quantity := quantity r + q,
                                           availableQuantity := availableQuantity r + q\<rparr>)))
       \<and> (\<forall>e s'. completeStockTransfer i s = (Inl e, s') \<longrightarrow> s' = s)
       \<and> ((case inventory s (fromWarehouseId d, P) of
              None \<Rightarrow> True
            | Some srcRow \<Rightarrow> availableQuantity srcRow < q) \<longrightarrow>
            (\<exists>e. completeStockTransfer i s = (Inl e, s)))
       \<and> (\<forall>srcRow. transfer_items d = [\<lparr>productId = P, item_quantity = q\<rparr>]
            \<and> inventory s (fromWarehouseId d, P) = Some srcRow \<and> q \<le> availableQuantity srcRow \<longrightarrow>
            (\<exists>s'. completeStockTransfer i s = (Inr (), s')))"
proof -
  let ?loop = "stockTransferLoop (fromWarehouseId d) (toWarehouseId d) (transfer_items d) (inventory s)"
  have opened: "completeStockTransfer i s =
           (case ?loop of
              Inl e \<Rightarrow> (Inl e, s)
            | Inr tbl' \<Rightarrow>
                (Inr (), s\<lparr>stockTransfers :=
                             map (\<lambda>d. if transfer_id d = i then d\<lparr>transfer_status := ''completed''\<rparr> else d)
                                 (stockTransfers s),
                           inventory := tbl'\<rparr>))"
    by (rule completeStockTransfer_open [OF found]) (simp_all add: draft)
  have success: "\<forall>s'. completeStockTransfer i s = (Inr (), s') \<longrightarrow>
            find (\<lambda>d. transfer_id d = i) (stockTransfers s') = Some (d\<lparr>transfer_status := ''completed''\<rparr>)
            \<and> (\<exists>srcRow. inventory s (fromWarehouseId d, P) = Some srcRow
                  \<and> q \<le> availableQuantity srcRow
                  \<and> inventory s' (fromWarehouseId d, P) =
                      Some (srcRow\<lparr>quantity := quantity srcRow - q,
                                   availableQuantity := availableQuantity srcRow - q\<rparr>)
                  \<and> inventory s' (toWarehouseId d, P) =
                      Some (case inventory s (toWarehouseId d, P) of
                              None \<Rightarrow> \<lparr>quantity = q, availableQuantity = q, reservedQuantity = 0\<rparr>
                            | Some r \<Rightarrow> r\<lparr>quantity := quantity r + q,
                                           availableQuantity := availableQuantity r + q\<rparr>))"
  proof (intro allI impI)
    fix s' assume ok: "completeStockTransfer i s = (Inr (), s')"
    with opened obtain tbl' where loop: "?loop = Inr tbl'"
      and s': "s' = s\<lparr>stockTransfers :=
                             map (\<lambda>d. if transfer_id d = i then d\<lparr>transfer_status := ''completed''\<rparr> else d)
                                 (stockTransfers s),
                           inventory := tbl'\<rparr>"
      by (cases ?loop) auto
    from stockTransferLoop_single_line [OF loop line apart] s' found
    show "find (\<lambda>d. transfer_id d = i) (stockTransfers s') = Some (d\<lparr>transfer_status := ''completed''\<rparr>)
            \<and> (\<exists>srcRow. inventory s (fromWarehouseId d, P) = Some srcRow
                  \<and> q \<le> availableQuantity srcRow
                  \<and> inventory s' (fromWarehouseId d, P) =
                      Some (srcRow\<lparr>quantity := quantity srcRow - q,
                                   availableQuantity := availableQuantity srcRow - q\<rparr>)
                  \<and> inventory s' (toWarehouseId d, P) =
                      Some (case inventory s (toWarehouseId d, P) of
                              None \<Rightarrow> \<lparr>quantity = q, availableQuantity = q, reservedQuantity = 0\<rparr>
                            | Some r \<Rightarrow> r\<lparr>quantity := quantity r + q,
                                           availableQuantity := availableQuantity r + q\<rparr>))"
      by (simp add: find_after_transfer_completion)
  qed
  have rollback: "\<forall>e s'. completeStockTransfer i s = (Inl e, s') \<longrightarrow> s' = s"
    using opened by (auto split: sum.splits)
  have short: "(case inventory s (fromWarehouseId d, P) of
              None \<Rightarrow> True
            | Some srcRow \<Rightarrow> availableQuantity srcRow < q) \<longrightarrow>
            (\<exists>e. completeStockTransfer i s = (Inl e, s))"
  proof
    assume lack: "case inventory s (fromWarehouseId d, P) of
              None \<Rightarrow> True
            | Some srcRow \<Rightarrow> availableQuantity srcRow < q"
    have "\<nexists>tbl'. ?loop = Inr tbl'"
    proof
      assume "\<exists>tbl'. ?loop = Inr tbl'"
      then obtain tbl' where "?loop = Inr tbl'" ..
      from stockTransferLoop_single_line [OF this line apart] lack show False by auto
    qed
    then obtain e where "?loop = Inl e" by (cases ?loop) auto
    with opened show "\<exists>e. completeStockTransfer i s = (Inl e, s)" by simp
  qed
  have enough: "\<forall>srcRow. transfer_items d = [\<lparr>productId = P, item_quantity = q\<rparr>]
            \<and> inventory s (fromWarehouseId d, P) = Some srcRow \<and> q \<le> availableQuantity srcRow \<longrightarrow>
            (\<exists>s'. completeStockTransfer i s = (Inr (), s'))"
    using opened
    by (auto simp: decreaseInventoryInTransaction_def increase_result)
  from success rollback short enough show ?thesis by blast
qed

text \<open>
  At the sample state: tr-1 moves 3 units of P1 from W1, which holds (10, 7, 3), to W2,
  which holds nothing; afterwards W1 holds (7, 4, 3) and W2 holds (3, 3, 0). tr-2 asks
  for 8 units, fails and changes nothing.
\<close>

theorem transfer_is_atomic_witness:
  "(\<exists>s'. completeStockTransfer ''tr-1'' demo_db = (Inr (), s')
       \<and> inventory s' (''W1'', ''P1'') =
           Some \<lparr>quantity = 7, availableQuantity = 4, reservedQuantity = 3\<rparr>
       \<and> inventory s' (''W2'', ''P1'') =
           Some \<lparr>quantity = 3, availableQuantity = 3, reservedQuantity = 0\<rparr>)
   \<and> (\<exists>e. completeStockTransfer ''tr-2'' demo_db = (Inl e, demo_db))"
proof -
  let ?d1 = "\<lparr>transfer_id = ''tr-1'', transferNo = ''TR20240521001'',
         fromWarehouseId = ''W1'', toWarehouseId = ''W2'', transfer_status = ''draft'',
         transfer_items = [\<lparr>productId = ''P1'', item_quantity = 3\<rparr>]\<rparr>"
  let ?d2 = "\<lparr>transfer_id = ''tr-2'', transferNo = ''TR20240521002'',
         fromWarehouseId = ''W1'', toWarehouseId = ''W2'', transfer_status = ''draft'',
         transfer_items = [\<lparr>productId = ''P1'', item_quantity = 8\<rparr>]\<rparr>"
  have f1: "find (\<lambda>d. transfer_id d = ''tr-1'') (stockTransfers demo_db) = Some ?d1"
    by (simp add: demo_db_def)
  have f2: "find (\<lambda>d. transfer_id d = ''tr-2'') (stockTransfers demo_db) = Some ?d2"
    by (simp add: demo_db_def)
  have src: "inventory demo_db (''W1'', ''P1'') =
       Some \<lparr>quantity = 10, availableQuantity = 7, reservedQuantity = 3\<rparr>"
    by (simp add: demo_db_def demo_ledger_def)
  have dst: "inventory demo_db (''W2'', ''P1'') = None"
    by (simp add: demo_db_def demo_ledger_def)
  have t1: "(\<exists>s'. completeStockTransfer ''tr-1'' demo_db = (Inr (), s')
       \<and> inventory s' (''W1'', ''P1'') =
           Some \<lparr>quantity = 7, availableQuantity = 4, reservedQuantity = 3\<rparr>
       \<and> inventory s' (''W2'', ''P1'') =
           Some \<lparr>quantity = 3, availableQuantity = 3, reservedQuantity = 0\<rparr>)"
    using transfer_is_atomic [OF f1, of "''P1''" 3] src dst by auto
  have t2: "\<exists>e. completeStockTransfer ''tr-2'' demo_db = (Inl e, demo_db)"
    using transfer_is_atomic [OF f2, of "''P1''" 8] src by simp
  from t1 t2 show ?thesis by blast
qed

section \<open>Document numbers\<close>

lemma digit_value_digit_char: "d < 10 \<Longrightarrow> digit_value (digit_char d) = d"
  by (simp add: digit_value_def digit_char_def)

lemma decimal_value_snoc: "decimal_value (str @ [c]) = 10 * decimal_value str + digit_value c"
  by (simp add: decimal_value_def)

lemma decimal_value_decimal: "decimal_value (decimal n) = n"
proof (induction n rule: decimal.induct)
  case (1 n)
  show ?case
  proof (cases "n < 10")
    case True
    then show ?thesis
      by (simp add: decimal.simps [of n] decimal_value_def digit_value_digit_char)
  next
    case False
    with 1 have "decimal_value (decimal (n div 10)) = n div 10" by simp
    with False show ?thesis
      by (simp add: decimal.simps [of n] decimal_value_snoc digit_value_digit_char)
  qed
qed

lemma decimal_value_zeros: "foldl (\<lambda>acc c. 10 * acc + digit_value c) 0 (replicate k CHR ''0'') = 0"
  by (induction k) (simp_all add: digit_value_def)

lemma decimal_value_padStart3: "decimal_value (padStart3 str) = decimal_value str"
  by (simp add: decimal_value_def padStart3_def decimal_value_zeros)

lemma generateNo_shape:
  "generateNo prefix now nos =
     prefix @ dateStr now @
       padStart3 (decimal (length (filter (\<lambda>no. startsWith no (prefix @ dateStr now)) nos) + 1))"
  by (simp add: generateNo_def Let_def)

lemma seq_suffix_generateNo:
  "decimal_value (seq_suffix prefix now (generateNo prefix now nos)) =
     length (filter (\<lambda>no. startsWith no (prefix @ dateStr now)) nos) + 1"
  by (simp add: generateNo_shape seq_suffix_def decimal_value_padStart3 decimal_value_decimal)

lemma startsWith_generateNo: "startsWith (generateNo prefix now nos) (prefix @ dateStr now)"
  by (simp add: generateNo_shape startsWith_def)

lemma generateNo_next:
  assumes "dateStr now2 = dateStr now1"
  shows "decimal_value (seq_suffix prefix now2
           (generateNo prefix now2 (nos @ [generateNo prefix now1 nos]))) =
         length (filter (\<lambda>no. startsWith no (prefix @ dateStr now1)) nos) + 2"
  using assms startsWith_generateNo [of prefix now1 nos]
  by (simp add: seq_suffix_generateNo)


lemma createStockCheck_result:
  assumes "createStockCheck newId now data s = (Inr doc, s1)"
  shows "doc = \<lparr>check_id = newId, checkNo = generateCheckNo ''CK'' now s,
                check_warehouseId = input_check_warehouseId data, check_status = ''draft'',
                check_items = itemsWithDifference (input_check_items data)\<rparr>
       \<and> s1 = s\<lparr>stockChecks := stockChecks s @ [doc]\<rparr>"
  using assms
  by (auto simp: createStockCheck_def transaction_def Let_def split: if_splits option.splits)

text \<open>
  C8. The generators of the stock-in and stock-check repositories return the prefix,
  the date digits of the clock's ISO string, and \<open>n + 1\<close> in decimal padded with zeros
  to three digits, where \<open>n\<close> is the number of rows of the repository's table whose number
  starts with prefix and date. Consequently, when two stock-ins (or two stock checks)
  are created one after the other on the same date, the part of their numbers after
  prefix and date reads \<open>n + 1\<close> for the first and \<open>n + 2\<close> for the second: the suffixes are
  strictly increasing and the numbers differ.
\<close>

theorem document_numbers_sequential:
  "generateInNo prefix now s =
     prefix @ dateStr now @
       padStart3 (decimal (length (filter (\<lambda>d. startsWith (docNo d) (prefix @ dateStr now))
                                          (stockIns s)) + 1))
   \<and> generateCheckNo prefix now s =
     prefix @ dateStr now @
       padStart3 (decimal (length (filter (\<lambda>d. startsWith (checkNo d) (prefix @ dateStr now))
                                          (stockChecks s)) + 1))
   \<and> (\<forall>d1 s1 d2 s2.
         createStockIn id1 now1 data1 s = (Inr d1, s1)
         \<and> createStockIn id2 now2 data2 s1 = (Inr d2, s2)
         \<and> dateStr now2 = dateStr now1 \<longrightarrow>
           decimal_value (seq_suffix ''IN'' now1 (docNo d1)) =
             length (filter (\<lambda>d. startsWith (docNo d) (''IN'' @ dateStr now1)) (stockIns s)) + 1
           \<and> decimal_value (seq_suffix ''IN'' now2 (docNo d2)) =
             length (filter (\<lambda>d. startsWith (docNo d) (''IN'' @ dateStr now1)) (stockIns s)) + 2
           \<and> decimal_value (seq_suffix ''IN'' now1 (docNo d1))
               < decimal_value (seq_suffix ''IN'' now2 (docNo d2))
           \<and> docNo d1 \<noteq> docNo d2)
   \<and> (\<forall>c1 s1 c2 s2.
         createStockCheck id1 now1 check1 s = (Inr c1, s1)
         \<and> createStockCheck id2 now2 check2 s1 = (Inr c2, s2)
         \<and> dateStr now2 = dateStr now1 \<longrightarrow>
           decimal_value (seq_suffix ''CK'' now1 (checkNo c1)) =
             length (filter (\<lambda>d. startsWith (checkNo d) (''CK'' @ dateStr now1)) (stockChecks s)) + 1
           \<and> decimal_value (seq_suffix ''CK'' now2 (checkNo c2)) =
             length (filter (\<lambda>d. startsWith (checkNo d) (''CK'' @ dateStr now1)) (stockChecks s)) + 2
           \<and> decimal_value (seq_suffix ''CK'' now1 (checkNo c1))
               < decimal_value (seq_suffix ''CK'' now2 (checkNo c2))
           \<and> checkNo c1 \<noteq> checkNo c2)"
proof (intro conjI allI impI)
  show "generateInNo prefix now s =
     prefix @ dateStr now @
       padStart3 (decimal (length (filter (\<lambda>d. startsWith (docNo d) (prefix @ dateStr now))
                                          (stockIns s)) + 1))"
    by (simp add: generateInNo_def generateNo_shape filter_map comp_def)
next
  show "generateCheckNo prefix now s =
     prefix @ dateStr now @
       padStart3 (decimal (length (filter (\<lambda>d. startsWith (checkNo d) (prefix @ dateStr now))
                                          (stockChecks s)) + 1))"
    by (simp add: generateCheckNo_def generateNo_shape filter_map comp_def)
next
  fix d1 s1 d2 s2
  assume seq: "createStockIn id1 now1 data1 s = (Inr d1, s1)
         \<and> createStockIn id2 now2 data2 s1 = (Inr d2, s2)
         \<and> dateStr now2 = dateStr now1"
  let ?n = "length (filter (\<lambda>d. startsWith (docNo d) (''IN'' @ dateStr now1)) (stockIns s))"
  from seq createStockIn_result [of id1 now1 data1 s d1 s1]
  have no1: "docNo d1 = generateNo ''IN'' now1 (map docNo (stockIns s))"
    and s1: "stockIns s1 = stockIns s @ [d1]"
    by (simp_all add: generateInNo_def)
  from seq createStockIn_result [of id2 now2 data2 s1 d2 s2]
  have "docNo d2 = generateNo ''IN'' now2 (map docNo (stockIns s1))"
    by (simp add: generateInNo_def)
  with no1 s1 have no2: "docNo d2 = generateNo ''IN'' now2
      (map docNo (stockIns s) @ [generateNo ''IN'' now1 (map docNo (stockIns s))])"
    by simp
  from seq have same: "dateStr now2 = dateStr now1" by simp
  show v1: "decimal_value (seq_suffix ''IN'' now1 (docNo d1)) = ?n + 1"
    by (simp add: no1 seq_suffix_generateNo filter_map comp_def)
  show v2: "decimal_value (seq_suffix ''IN'' now2 (docNo d2)) = ?n + 2"
    by (simp add: no2 generateNo_next [OF same] filter_map comp_def)
  from v1 v2 show "decimal_value (seq_suffix ''IN'' now1 (docNo d1))
               < decimal_value (seq_suffix ''IN'' now2 (docNo d2))" by simp
  from v1 v2 same show "docNo d1 \<noteq> docNo d2"
    by (auto simp: seq_suffix_def)
next
  fix c1 s1 c2 s2
  assume seq: "createStockCheck id1 now1 check1 s = (Inr c1, s1)
         \<and> createStockCheck id2 now2 check2 s1 = (Inr c2, s2)
         \<and> dateStr now2 = dateStr now1"
  let ?n = "length (filter (\<lambda>d. startsWith (checkNo d) (''CK'' @ dateStr now1)) (stockChecks s))"
  from seq createStockCheck_result [of id1 now1 check1 s c1 s1]
  have no1: "checkNo c1 = generateNo ''CK'' now1 (map checkNo (stockChecks s))"
    and s1: "stockChecks s1 = stockChecks s @ [c1]"
    by (simp_all add: generateCheckNo_def)
  from seq createStockCheck_result [of id2 now2 check2 s1 c2 s2]
  have "checkNo c2 = generateNo ''CK'' now2 (map checkNo (stockChecks s1))"
    by (simp add: generateCheckNo_def)
  with no1 s1 have no2: "checkNo c2 = generateNo ''CK'' now2
      (map checkNo (stockChecks s) @ [generateNo ''CK'' now1 (map checkNo (stockChecks s))])"
    by simp
  from seq have same: "dateStr now2 = dateStr now1" by simp
  show v1: "decimal_value (seq_suffix ''CK'' now1 (checkNo c1)) = ?n + 1"
    by (simp add: no1 seq_suffix_generateNo filter_map comp_def)
  show v2: "decimal_value (seq_suffix ''CK'' now2 (checkNo c2)) = ?n + 2"
    by (simp add: no2 generateNo_next [OF same] filter_map comp_def)
  from v1 v2 show "decimal_value (seq_suffix ''CK'' now1 (checkNo c1))
               < decimal_value (seq_suffix ''CK'' now2 (checkNo c2))" by simp
  from v1 v2 same show "checkNo c1 \<noteq> checkNo c2"
    by (auto simp: seq_suffix_def)
qed

text \<open>
  At the sample state, which holds three stock-ins and one stock check numbered on
  2024-05-21: two more stock-ins created that day get IN20240521004 and IN20240521005,
  two more stock checks CK20240521002 and CK20240521003.
\<close>

theorem document_numbers_sequential_witness:
  "dateStr demo_morning = ''20240521''
   \<and> generateInNo ''IN'' demo_morning demo_db = ''IN20240521004''
   \<and> generateCheckNo ''CK'' demo_morning demo_db = ''CK20240521002''
   \<and> (\<exists>d1 s1 d2 s2.
         createStockIn ''in-4'' demo_morning
            \<lparr>input_warehouseId = ''W1'',
             input_items = [\<lparr>productId = ''P1'', item_quantity = 10\<rparr>]\<rparr> demo_db = (Inr d1, s1)
         \<and> createStockIn ''in-5'' demo_evening
            \<lparr>input_warehouseId = ''W1'',
             input_items = [\<lparr>productId = ''P1'', item_quantity = 10\<rparr>]\<rparr> s1 = (Inr d2, s2)
         \<and> docNo d1 = ''IN20240521004'' \<and> docNo d2 = ''IN20240521005''
         \<and> decimal_value (seq_suffix ''IN'' demo_morning (docNo d1)) = 4
         \<and> decimal_value (seq_suffix ''IN'' demo_evening (docNo d2)) = 5)
   \<and> (\<exists>c1 s1 c2 s2.
         createStockCheck ''ck-2'' demo_morning
            \<lparr>input_check_warehouseId = ''W1'',
             input_check_items = [\<lparr>input_productId = ''P1'', input_bookQuantity = 20,
                                   input_actualQuantity = 17\<rparr>]\<rparr> demo_db = (Inr c1, s1)
         \<and> createStockCheck ''ck-3'' demo_evening
            \<lparr>input_check_warehouseId = ''W1'',
             input_check_items = [\<lparr>input_productId = ''P1'', input_bookQuantity = 20,
                                   input_actualQuantity = 17\<rparr>]\<rparr> s1 = (Inr c2, s2)
         \<and> checkNo c1 = ''CK20240521002'' \<and> checkNo c2 = ''CK20240521003''
         \<and> decimal_value (seq_suffix ''CK'' demo_morning (checkNo c1)) = 2
         \<and> decimal_value (seq_suffix ''CK'' demo_evening (checkNo c2)) = 3)"
proof -
  let ?data = "\<lparr>input_warehouseId = ''W1'',
             input_items = [\<lparr>productId = ''P1'', item_quantity = 10\<rparr>]\<rparr>"
  let ?check = "\<lparr>input_check_warehouseId = ''W1'',
             input_check_items = [\<lparr>input_productId = ''P1'', input_bookQuantity = 20,
                                   input_actualQuantity = 17\<rparr>]\<rparr>"
  let ?d1 = "\<lparr>doc_id = ''in-4'', docNo = ''IN20240521004'', warehouseId = ''W1'',
             status = ''draft'', items = [\<lparr>productId = ''P1'', item_quantity = 10\<rparr>]\<rparr>"
  let ?d2 = "\<lparr>doc_id = ''in-5'', docNo = ''IN20240521005'', warehouseId = ''W1'',
             status = ''draft'', items = [\<lparr>productId = ''P1'', item_quantity = 10\<rparr>]\<rparr>"
  let ?c1 = "\<lparr>check_id = ''ck-2'', checkNo = ''CK20240521002'', check_warehouseId = ''W1'',
             check_status = ''draft'',
             check_items = [\<lparr>check_productId = ''P1'', bookQuantity = 20, actualQuantity = 17,
                              difference = - 3\<rparr>]\<rparr>"
  let ?c2 = "\<lparr>check_id = ''ck-3'', checkNo = ''CK20240521003'', check_warehouseId = ''W1'',
             check_status = ''draft'',
             check_items = [\<lparr>check_productId = ''P1'', bookQuantity = 20, actualQuantity = 17,
                              difference = - 3\<rparr>]\<rparr>"
  let ?s1 = "demo_db\<lparr>stockIns := stockIns demo_db @ [?d1]\<rparr>"
  let ?s2 = "?s1\<lparr>stockIns := stockIns ?s1 @ [?d2]\<rparr>"
  let ?u1 = "demo_db\<lparr>stockChecks := stockChecks demo_db @ [?c1]\<rparr>"
  let ?u2 = "?u1\<lparr>stockChecks := stockChecks ?u1 @ [?c2]\<rparr>"
  have date1: "dateStr demo_morning = ''20240521''"
    and date2: "dateStr demo_evening = dateStr demo_morning"
    by (simp_all add: dateStr_def demo_morning_def demo_evening_def)
  have n_in: "length (filter (\<lambda>d. startsWith (docNo d) (''IN'' @ dateStr demo_morning))
                       (stockIns demo_db)) = 3"
    and n_ck: "length (filter (\<lambda>d. startsWith (checkNo d) (''CK'' @ dateStr demo_morning))
                       (stockChecks demo_db)) = 1"
    by code_simp+
  have no_in: "generateInNo ''IN'' demo_morning demo_db = ''IN20240521004''"
  proof -
    note document_numbers_sequential [of "''IN''" demo_morning demo_db, THEN conjunct1]
    also have "''IN'' @ dateStr demo_morning @
        padStart3 (decimal (length (filter (\<lambda>d. startsWith (docNo d) (''IN'' @ dateStr demo_morning))
                                          (stockIns demo_db)) + 1)) = ''IN20240521004''"
      by code_simp
    finally show ?thesis .
  qed
  have no_ck: "generateCheckNo ''CK'' demo_morning demo_db = ''CK20240521002''"
  proof -
    note document_numbers_sequential [of "''CK''" demo_morning demo_db, THEN conjunct2, THEN conjunct1]
    also have "''CK'' @ dateStr demo_morning @
        padStart3 (decimal (length (filter (\<lambda>d. startsWith (checkNo d) (''CK'' @ dateStr demo_morning))
                                          (stockChecks demo_db)) + 1)) = ''CK20240521002''"
      by code_simp
    finally show ?thesis .
  qed
  have wh: "''W1'' \<in> warehouses demo_db" and pr: "''P1'' \<in> products demo_db"
    by (simp_all add: demo_db_def)
  have in1: "createStockIn ''in-4'' demo_morning ?data demo_db = (Inr ?d1, ?s1)"
    by (simp add: createStockIn_def missing_product_def transaction_def Let_def no_in wh pr)
  have no_in2: "generateInNo ''IN'' demo_evening ?s1 = ''IN20240521005''"
    by code_simp
  have in2: "createStockIn ''in-5'' demo_evening ?data ?s1 = (Inr ?d2, ?s2)"
    by (simp add: createStockIn_def missing_product_def transaction_def Let_def no_in2 wh pr)
  have ck1: "createStockCheck ''ck-2'' demo_morning ?check demo_db = (Inr ?c1, ?u1)"
    by (simp add: createStockCheck_def missing_product_def transaction_def Let_def
        itemsWithDifference_def no_ck wh pr)
  have no_ck2: "generateCheckNo ''CK'' demo_evening ?u1 = ''CK20240521003''"
    by code_simp
  have ck2: "createStockCheck ''ck-3'' demo_evening ?check ?u1 = (Inr ?c2, ?u2)"
    by (simp add: createStockCheck_def missing_product_def transaction_def Let_def
        itemsWithDifference_def no_ck2 wh pr)
  note seq_in = document_numbers_sequential
      [of "''IN''" demo_morning demo_db "''in-4''" demo_morning ?data "''in-5''" demo_evening ?data,
       THEN conjunct2, THEN conjunct2, THEN conjunct1, rule_format, of ?d1 ?s1 ?d2 ?s2]
  have v_in: "decimal_value (seq_suffix ''IN'' demo_morning (docNo ?d1)) = 4
            \<and> decimal_value (seq_suffix ''IN'' demo_evening (docNo ?d2)) = 5"
    using seq_in [OF conjI [OF in1 conjI [OF in2 date2]]] by (simp only: n_in) simp
  note seq_ck = document_numbers_sequential
      [of "''CK''" demo_morning demo_db "''ck-2''" demo_morning _ "''ck-3''" demo_evening _
          ?check ?check,
       THEN conjunct2, THEN conjunct2, THEN conjunct2, rule_format, of ?c1 ?u1 ?c2 ?u2]
  have v_ck: "decimal_value (seq_suffix ''CK'' demo_morning (checkNo ?c1)) = 2
            \<and> decimal_value (seq_suffix ''CK'' demo_evening (checkNo ?c2)) = 3"
    using seq_ck [OF conjI [OF ck1 conjI [OF ck2 date2]]] by (simp only: n_ck) simp
  have part_in: "\<exists>d1 s1 d2 s2.
         createStockIn ''in-4'' demo_morning ?data demo_db = (Inr d1, s1)
         \<and> createStockIn ''in-5'' demo_evening ?data s1 = (Inr d2, s2)
         \<and> docNo d1 = ''IN20240521004'' \<and> docNo d2 = ''IN20240521005''
         \<and> decimal_value (seq_suffix ''IN'' demo_morning (docNo d1)) = 4
         \<and> decimal_value (seq_suffix ''IN'' demo_evening (docNo d2)) = 5"
    using in1 in2 v_in by (intro exI [of _ ?d1] exI [of _ ?s1] exI [of _ ?d2] exI [of _ ?s2]) simp
  have part_ck: "\<exists>c1 s1 c2 s2.
         createStockCheck ''ck-2'' demo_morning ?check demo_db = (Inr c1, s1)
         \<and> createStockCheck ''ck-3'' demo_evening ?check s1 = (Inr c2, s2)
         \<and> checkNo c1 = ''CK20240521002'' \<and> checkNo c2 = ''CK20240521003''
         \<and> decimal_value (seq_suffix ''CK'' demo_morning (checkNo c1)) = 2
         \<and> decimal_value (seq_suffix ''CK'' demo_evening (checkNo c2)) = 3"
    using ck1 ck2 v_ck by (intro exI [of _ ?c1] exI [of _ ?u1] exI [of _ ?c2] exI [of _ ?u2]) simp
  from date1 no_in no_ck part_in part_ck show ?thesis by blast
qed

section \<open>Completed and cancelled are terminal\<close>

lemma find_map_other:
  assumes "j \<noteq> i" and "\<And>d. key (g d) = key d"
  shows "find (\<lambda>d. key d = i) (map (\<lambda>d. if key d = j then g d else d) rows)
           = find (\<lambda>d. key d = i) rows"
  using assms by (induction rows) auto

lemma find_append_keep: "find P rows = Some d \<Longrightarrow> find P (rows @ [x]) = Some d"
  by (induction rows) (auto split: if_splits)

lemma patch_stock_doc_id [simp]: "doc_id (patch_stock_doc data d) = doc_id d"
  by (simp add: patch_stock_doc_def)

lemma patch_transfer_doc_id [simp]: "transfer_id (patch_transfer_doc data d) = transfer_id d"
  by (simp add: patch_transfer_doc_def)

lemma patch_check_doc_id [simp]: "check_id (patch_check_doc data d) = check_id d"
  by (simp add: patch_check_doc_def)

lemma stock_in_kept:
  assumes "find (\<lambda>d. doc_id d = i) (stockIns s) = Some d"
      and "status d = ''completed'' \<or> status d = ''cancelled''"
  shows "find (\<lambda>d. doc_id d = i) (stockIns (perform op s)) = Some d"
proof (cases op)
  case (CreateStockIn newId now data)
  with assms(1) show ?thesis
    by (auto simp: createStockIn_def transaction_def Let_def find_append_keep split: option.splits)
next
  case (UpdateStockIn j data)
  show ?thesis
  proof (cases "j = i")
    case True
    with assms UpdateStockIn show ?thesis by (auto simp: updateStockIn_def)
  next
    case False
    with assms(1) UpdateStockIn show ?thesis
      by (auto simp: updateStockIn_def transaction_def find_map_other split: option.splits)
  qed
next
  case (CompleteStockIn j)
  show ?thesis
  proof (cases "j = i")
    case True
    with assms CompleteStockIn show ?thesis by (auto simp: completeStockIn_def)
  next
    case False
    with assms(1) CompleteStockIn show ?thesis
      by (auto simp: completeStockIn_def transaction_def Let_def find_map_other split: option.splits sum.splits)
  qed
next
  case (CreateStockOut newId now data)
  with assms(1) show ?thesis
    by (auto simp: createStockOut_def transaction_def Let_def split: option.splits)
next
  case (UpdateStockOut j data)
  with assms(1) show ?thesis
    by (auto simp: updateStockOut_def transaction_def split: option.splits)
next
  case (CompleteStockOut j)
  with assms(1) show ?thesis
    by (auto simp: completeStockOut_def transaction_def Let_def split: option.splits sum.splits)
next
  case (CreateStockTransfer newId now data)
  with assms(1) show ?thesis
    by (auto simp: createStockTransfer_def transaction_def Let_def split: option.splits)
next
  case (UpdateStockTransfer j data)
  with assms(1) show ?thesis
    by (auto simp: updateStockTransfer_def transaction_def split: option.splits)
next
  case (CompleteStockTransfer j)
  with assms(1) show ?thesis
    by (auto simp: completeStockTransfer_def transaction_def Let_def split: option.splits sum.splits)
next
  case (CreateStockCheck newId now data)
  with assms(1) show ?thesis
    by (auto simp: createStockCheck_def transaction_def Let_def split: option.splits)
next
  case (UpdateStockCheck j data)
  with assms(1) show ?thesis
    by (auto simp: updateStockCheck_def transaction_def split: option.splits)
next
  case (CompleteStockCheck j)
  with assms(1) show ?thesis
    by (auto simp: completeStockCheck_def transaction_def Let_def split: option.splits sum.splits)
qed

lemma stock_in_kept_forever:
  assumes "find (\<lambda>d. doc_id d = i) (stockIns s) = Some d"
      and "status d = ''completed'' \<or> status d = ''cancelled''"
  shows "find (\<lambda>d. doc_id d = i) (stockIns (fold perform ops s)) = Some d"
  using assms(1)
proof (induction ops arbitrary: s)
  case Nil
  then show ?case by simp
next
  case (Cons op ops)
  from stock_in_kept [OF Cons.prems assms(2)]
  have "find (\<lambda>d. doc_id d = i) (stockIns (perform op s)) = Some d" .
  from Cons.IH [OF this] show ?case by simp
qed

lemma stock_out_kept:
  assumes "find (\<lambda>d. doc_id d = i) (stockOuts s) = Some d"
      and "status d = ''completed'' \<or> status d = ''cancelled''"
  shows "find (\<lambda>d. doc_id d = i) (stockOuts (perform op s)) = Some d"
proof (cases op)
  case (CreateStockIn newId now data)
  with assms(1) show ?thesis
    by (auto simp: createStockIn_def transaction_def Let_def split: option.splits)
next
  case (UpdateStockIn j data)
  with assms(1) show ?thesis
    by (auto simp: updateStockIn_def transaction_def split: option.splits)
next
  case (CompleteStockIn j)
  with assms(1) show ?thesis
    by (auto simp: completeStockIn_def transaction_def Let_def split: option.splits sum.splits)
next
  case (CreateStockOut newId now data)
  with assms(1) show ?thesis
    by (auto simp: createStockOut_def transaction_def Let_def find_append_keep split: option.splits)
next
  case (UpdateStockOut j data)
  show ?thesis
  proof (cases "j = i")
    case True
    with assms UpdateStockOut show ?thesis by (auto simp: updateStockOut_def)
  next
    case False
    with assms(1) UpdateStockOut show ?thesis
      by (auto simp: updateStockOut_def transaction_def find_map_other split: option.splits)
  qed
next
  case (CompleteStockOut j)
  show ?thesis
  proof (cases "j = i")
    case True
    with assms CompleteStockOut show ?thesis by (auto simp: completeStockOut_def)
  next
    case False
    with assms(1) CompleteStockOut show ?thesis
      by (auto simp: completeStockOut_def transaction_def Let_def find_map_other split: option.splits sum.splits)
  qed
next
  case (CreateStockTransfer newId now data)
  with assms(1) show ?thesis
    by (auto simp: createStockTransfer_def transaction_def Let_def split: option.splits)
next
  case (UpdateStockTransfer j data)
  with assms(1) show ?thesis
    by (auto simp: updateStockTransfer_def transaction_def split: option.splits)
next
  case (CompleteStockTransfer j)
  with assms(1) show ?thesis
    by (auto simp: completeStockTransfer_def transaction_def Let_def split: option.splits sum.splits)
next
  case (CreateStockCheck newId now data)
  with assms(1) show ?thesis
    by (auto simp: createStockCheck_def transaction_def Let_def split: option.splits)
next
  case (UpdateStockCheck j data)
  with assms(1) show ?thesis
    by (auto simp: updateStockCheck_def transaction_def split: option.splits)
next
  case (CompleteStockCheck j)
  with assms(1) show ?thesis
    by (auto simp: completeStockCheck_def transaction_def Let_def split: option.splits sum.splits)
qed

lemma stock_out_kept_forever:
  assumes "find (\<lambda>d. doc_id d = i) (stockOuts s) = Some d"
      and "status d = ''completed'' \<or> status d = ''cancelled''"
  shows "find (\<lambda>d. doc_id d = i) (stockOuts (fold perform ops s)) = Some d"
  using assms(1)
proof (induction ops arbitrary: s)
  case Nil
  then show ?case by simp
next
  case (Cons op ops)
  from stock_out_kept [OF Cons.prems assms(2)]
  have "find (\<lambda>d. doc_id d = i) (stockOuts (perform op s)) = Some d" .
  from Cons.IH [OF this] show ?case by simp
qed

lemma stock_transfer_kept:
  assumes "find (\<lambda>d. transfer_id d = i) (stockTransfers s) = Some d"
      and "transfer_status d = ''completed'' \<or> transfer_status d = ''cancelled''"
  shows "find (\<lambda>d. transfer_id d = i) (stockTransfers (perform op s)) = Some d"
proof (cases op)
  case (CreateStockIn newId now data)
  with assms(1) show ?thesis
    by (auto simp: createStockIn_def transaction_def Let_def split: option.splits)
next
  case (UpdateStockIn j data)
  with assms(1) show ?thesis
    by (auto simp: updateStockIn_def transaction_def split: option.splits)
next
  case (CompleteStockIn j)
  with assms(1) show ?thesis
    by (auto simp: completeStockIn_def transaction_def Let_def split: option.splits sum.splits)
next
  case (CreateStockOut newId now data)
  with assms(1) show ?thesis
    by (auto simp: createStockOut_def transaction_def Let_def split: option.splits)
next
  case (UpdateStockOut j data)
  with assms(1) show ?thesis
    by (auto simp: updateStockOut_def transaction_def split: option.splits)
next
  case (CompleteStockOut j)
  with assms(1) show ?thesis
    by (auto simp: completeStockOut_def transaction_def Let_def split: option.splits sum.splits)
next
  case (CreateStockTransfer newId now data)
  with assms(1) show ?thesis
    by (auto simp: createStockTransfer_def transaction_def Let_def find_append_keep split: option.splits)
next
  case (UpdateStockTransfer j data)
  show ?thesis
  proof (cases "j = i")
    case True
    with assms UpdateStockTransfer show ?thesis by (auto simp: updateStockTransfer_def)
  next
    case False
    with assms(1) UpdateStockTransfer show ?thesis
      by (auto simp: updateStockTransfer_def transaction_def find_map_other split: option.splits)
  qed
next
  case (CompleteStockTransfer j)
  show ?thesis
  proof (cases "j = i")
    case True
    with assms CompleteStockTransfer show ?thesis by (auto simp: completeStockTransfer_def)
  next
    case False
    with assms(1) CompleteStockTransfer show ?thesis
      by (auto simp: completeStockTransfer_def transaction_def Let_def find_map_other split: option.splits sum.splits)
  qed
next
  case (CreateStockCheck newId now data)
  with assms(1) show ?thesis
    by (auto simp: createStockCheck_def transaction_def Let_def split: option.splits)
next
  case (UpdateStockCheck j data)
  with assms(1) show ?thesis
    by (auto simp: updateStockCheck_def transaction_def split: option.splits)
next
  case (CompleteStockCheck j)
  with assms(1) show ?thesis
    by (auto simp: completeStockCheck_def transaction_def Let_def split: option.splits sum.splits)
qed

lemma stock_transfer_kept_forever:
  assumes "find (\<lambda>d. transfer_id d = i) (stockTransfers s) = Some d"
      and "transfer_status d = ''completed'' \<or> transfer_status d = ''cancelled''"
  shows "find (\<lambda>d. transfer_id d = i) (stockTransfers (fold perform ops s)) = Some d"
  using assms(1)
proof (induction ops arbitrary: s)
  case Nil
  then show ?case by simp
next
  case (Cons op ops)
  from stock_transfer_kept [OF Cons.prems assms(2)]
  have "find (\<lambda>d. transfer_id d = i) (stockTransfers (perform op s)) = Some d" .
  from Cons.IH [OF this] show ?case by simp
qed

lemma stock_check_kept:
  assumes "find (\<lambda>d. check_id d = i) (stockChecks s) = Some d"
      and "check_status d = ''completed'' \<or> check_status d = ''cancelled''"
  shows "find (\<lambda>d. check_id d = i) (stockChecks (perform op s)) = Some d"
proof (cases op)
  case (CreateStockIn newId now data)
  with assms(1) show ?thesis
    by (auto simp: createStockIn_def transaction_def Let_def split: option.splits)
next
  case (UpdateStockIn j data)
  with assms(1) show ?thesis
    by (auto simp: updateStockIn_def transaction_def split: option.splits)
next
  case (CompleteStockIn j)
  with assms(1) show ?thesis
    by (auto simp: completeStockIn_def transaction_def Let_def split: option.splits sum.splits)
next
  case (CreateStockOut newId now data)
  with assms(1) show ?thesis
    by (auto simp: createStockOut_def transaction_def Let_def split: option.splits)
next
  case (UpdateStockOut j data)
  with assms(1) show ?thesis
    by (auto simp: updateStockOut_def transaction_def split: option.splits)
next
  case (CompleteStockOut j)
  with assms(1) show ?thesis
    by (auto simp: completeStockOut_def transaction_def Let_def split: option.splits sum.splits)
next
  case (CreateStockTransfer newId now data)
  with assms(1) show ?thesis
    by (auto simp: createStockTransfer_def transaction_def Let_def split: option.splits)
next
  case (UpdateStockTransfer j data)
  with assms(1) show ?thesis
    by (auto simp: updateStockTransfer_def transaction_def split: option.splits)
next
  case (CompleteStockTransfer j)
  with assms(1) show ?thesis
    by (auto simp: completeStockTransfer_def transaction_def Let_def split: option.splits sum.splits)
next
  case (CreateStockCheck newId now data)
  with assms(1) show ?thesis
    by (auto simp: createStockCheck_def transaction_def Let_def find_append_keep split: option.splits)
next
  case (UpdateStockCheck j data)
  show ?thesis
  proof (cases "j = i")
    case True
    with assms UpdateStockCheck show ?thesis by (auto simp: updateStockCheck_def)
  next
    case False
    with assms(1) UpdateStockCheck show ?thesis
      by (auto simp: updateStockCheck_def transaction_def find_map_other split: option.splits)
  qed
next
  case (CompleteStockCheck j)
  show ?thesis
  proof (cases "j = i")
    case True
    with assms CompleteStockCheck show ?thesis by (auto simp: completeStockCheck_def)
  next
    case False
    with assms(1) CompleteStockCheck show ?thesis
      by (auto simp: completeStockCheck_def transaction_def Let_def find_map_other split: option.splits sum.splits)
  qed
qed

lemma stock_check_kept_forever:
  assumes "find (\<lambda>d. check_id d = i) (stockChecks s) = Some d"
      and "check_status d = ''completed'' \<or> check_status d = ''cancelled''"
  shows "find (\<lambda>d. check_id d = i) (stockChecks (fold perform ops s)) = Some d"
  using assms(1)
proof (induction ops arbitrary: s)
  case Nil
  then show ?case by simp
next
  case (Cons op ops)
  from stock_check_kept [OF Cons.prems assms(2)]
  have "find (\<lambda>d. check_id d = i) (stockChecks (perform op s)) = Some d" .
  from Cons.IH [OF this] show ?case by simp
qed

text \<open>
  C7. A document of any of the four types whose status is completed or cancelled is
  found unchanged, with the same status, lines and every other column, after any
  sequence of creations, updates and completions of documents of any type; an update of
  it fails with \<open>DocumentNotEditable\<close> and a completion of it with \<open>AlreadyCompleted\<close> or
  \<open>AlreadyCancelled\<close>, both leaving the state as it is.
\<close>

theorem terminal_documents_are_final:
  "(\<forall>d. find (\<lambda>d. doc_id d = i) (stockIns s) = Some d
          \<and> (status d = ''completed'' \<or> status d = ''cancelled'') \<longrightarrow>
        find (\<lambda>d. doc_id d = i) (stockIns (fold perform ops s)) = Some d
        \<and> updateStockIn i patch s = (Inl (DocumentNotEditable (status d)), s)
        \<and> completeStockIn i s =
            (Inl (if status d = ''completed'' then AlreadyCompleted else AlreadyCancelled), s))
   \<and> (\<forall>d. find (\<lambda>d. doc_id d = i) (stockOuts s) = Some d
          \<and> (status d = ''completed'' \<or> status d = ''cancelled'') \<longrightarrow>
        find (\<lambda>d. doc_id d = i) (stockOuts (fold perform ops s)) = Some d
        \<and> updateStockOut i patch s = (Inl (DocumentNotEditable (status d)), s)
        \<and> completeStockOut i s =
            (Inl (if status d = ''completed'' then AlreadyCompleted else AlreadyCancelled), s))
   \<and> (\<forall>d. find (\<lambda>d. transfer_id d = i) (stockTransfers s) = Some d
          \<and> (transfer_status d = ''completed'' \<or> transfer_status d = ''cancelled'') \<longrightarrow>
        find (\<lambda>d. transfer_id d = i) (stockTransfers (fold perform ops s)) = Some d
        \<and> updateStockTransfer i tpatch s =
            (Inl (DocumentNotEditable (transfer_status d)), s)
        \<and> completeStockTransfer i s =
            (Inl (if transfer_status d = ''completed'' then AlreadyCompleted else AlreadyCancelled), s))
   \<and> (\<forall>d. find (\<lambda>d. check_id d = i) (stockChecks s) = Some d
          \<and> (check_status d = ''completed'' \<or> check_status d = ''cancelled'') \<longrightarrow>
        find (\<lambda>d. check_id d = i) (stockChecks (fold perform ops s)) = Some d
        \<and> updateStockCheck i cpatch s =
            (Inl (DocumentNotEditable (check_status d)), s)
        \<and> completeStockCheck i s =
            (Inl (if check_status d = ''completed'' then AlreadyCompleted else AlreadyCancelled), s))"
proof (intro conjI allI impI)
  fix d assume "find (\<lambda>d. doc_id d = i) (stockIns s) = Some d
          \<and> (status d = ''completed'' \<or> status d = ''cancelled'')"
  then have found: "find (\<lambda>d. doc_id d = i) (stockIns s) = Some d"
    and closed: "status d = ''completed'' \<or> status d = ''cancelled''" by simp_all
  show "find (\<lambda>d. doc_id d = i) (stockIns (fold perform ops s)) = Some d"
    using found closed by (rule stock_in_kept_forever)
  show "updateStockIn i patch s = (Inl (DocumentNotEditable (status d)), s)"
    using found closed by (auto simp: updateStockIn_def)
  show "completeStockIn i s =
            (Inl (if status d = ''completed'' then AlreadyCompleted else AlreadyCancelled), s)"
    using found closed by (auto simp: completeStockIn_def)
next
  fix d assume "find (\<lambda>d. doc_id d = i) (stockOuts s) = Some d
          \<and> (status d = ''completed'' \<or> status d = ''cancelled'')"
  then have found: "find (\<lambda>d. doc_id d = i) (stockOuts s) = Some d"
    and closed: "status d = ''completed'' \<or> status d = ''cancelled''" by simp_all
  show "find (\<lambda>d. doc_id d = i) (stockOuts (fold perform ops s)) = Some d"
    using found closed by (rule stock_out_kept_forever)
  show "updateStockOut i patch s = (Inl (DocumentNotEditable (status d)), s)"
    using found closed by (auto simp: updateStockOut_def)
  show "completeStockOut i s =
            (Inl (if status d = ''completed'' then AlreadyCompleted else AlreadyCancelled), s)"
    using found closed by (auto simp: completeStockOut_def)
next
  fix d assume "find (\<lambda>d. transfer_id d = i) (stockTransfers s) = Some d
          \<and> (transfer_status d = ''completed'' \<or> transfer_status d = ''cancelled'')"
  then have found: "find (\<lambda>d. transfer_id d = i) (stockTransfers s) = Some d"
    and closed: "transfer_status d = ''completed'' \<or> transfer_status d = ''cancelled''"
    by simp_all
  show "find (\<lambda>d. transfer_id d = i) (stockTransfers (fold perform ops s)) = Some d"
    using found closed by (rule stock_transfer_kept_forever)
  show "updateStockTransfer i tpatch s =
            (Inl (DocumentNotEditable (transfer_status d)), s)"
    using found closed by (auto simp: updateStockTransfer_def)
  show "completeStockTransfer i s =
            (Inl (if transfer_status d = ''completed'' then AlreadyCompleted else AlreadyCancelled), s)"
    using found closed by (auto simp: completeStockTransfer_def)
next
  fix d assume "find (\<lambda>d. check_id d = i) (stockChecks s) = Some d
          \<and> (check_status d = ''completed'' \<or> check_status d = ''cancelled'')"
  then have found: "find (\<lambda>d. check_id d = i) (stockChecks s) = Some d"
    and closed: "check_status d = ''completed'' \<or> check_status d = ''cancelled''"
    by simp_all
  show "find (\<lambda>d. check_id d = i) (stockChecks (fold perform ops s)) = Some d"
    using found closed by (rule stock_check_kept_forever)
  show "updateStockCheck i cpatch s =
            (Inl (DocumentNotEditable (check_status d)), s)"
    using found closed by (auto simp: updateStockCheck_def)
  show "completeStockCheck i s =
            (Inl (if check_status d = ''completed'' then AlreadyCompleted else AlreadyCancelled), s)"
    using found closed by (auto simp: completeStockCheck_def)
qed

text \<open>
  At the second sample state, with a sequence of calls aimed at its closed documents.
\<close>

theorem terminal_documents_are_final_witness:
  "find (\<lambda>d. doc_id d = ''in-2'') (stockIns (fold perform demo_calls demo_archive)) =
      Some \<lparr>doc_id = ''in-2'', docNo = ''IN20240521002'', warehouseId = ''W1'',
            status = ''completed'', items = [\<lparr>productId = ''P1'', item_quantity = 4\<rparr>]\<rparr>
   \<and> updateStockIn ''in-2'' demo_patch demo_archive =
       (Inl (DocumentNotEditable ''completed''), demo_archive)
   \<and> completeStockIn ''in-2'' demo_archive = (Inl AlreadyCompleted, demo_archive)
   \<and> find (\<lambda>d. doc_id d = ''out-9'') (stockOuts (fold perform demo_calls demo_archive)) =
      Some \<lparr>doc_id = ''out-9'', docNo = ''OUT20240520001'', warehouseId = ''W1'',
            status = ''completed'', items = [\<lparr>productId = ''P1'', item_quantity = 1\<rparr>]\<rparr>
   \<and> updateStockOut ''out-9'' demo_patch demo_archive =
       (Inl (DocumentNotEditable ''completed''), demo_archive)
   \<and> completeStockOut ''out-9'' demo_archive = (Inl AlreadyCompleted, demo_archive)
   \<and> find (\<lambda>d. transfer_id d = ''tr-9'') (stockTransfers (fold perform demo_calls demo_archive)) =
      Some \<lparr>transfer_id = ''tr-9'', transferNo = ''TR20240520001'',
            fromWarehouseId = ''W1'', toWarehouseId = ''W2'', transfer_status = ''cancelled'',
            transfer_items = [\<lparr>productId = ''P1'', item_quantity = 1\<rparr>]\<rparr>
   \<and> updateStockTransfer ''tr-9''
         \<lparr>patch_fromWarehouseId = None, patch_toWarehouseId = None,
          patch_transfer_items = Some []\<rparr> demo_archive =
       (Inl (DocumentNotEditable ''cancelled''), demo_archive)
   \<and> completeStockTransfer ''tr-9'' demo_archive = (Inl AlreadyCancelled, demo_archive)
   \<and> find (\<lambda>d. check_id d = ''ck-9'') (stockChecks (fold perform demo_calls demo_archive)) =
      Some \<lparr>check_id = ''ck-9'', checkNo = ''CK20240520001'', check_warehouseId = ''W1'',
            check_status = ''completed'',
            check_items = [\<lparr>check_productId = ''P1'', bookQuantity = 10, actualQuantity = 9,
                             difference = - 1\<rparr>]\<rparr>
   \<and> updateStockCheck ''ck-9''
         \<lparr>patch_check_warehouseId = None, patch_check_items = Some []\<rparr> demo_archive =
       (Inl (DocumentNotEditable ''completed''), demo_archive)
   \<and> completeStockCheck ''ck-9'' demo_archive = (Inl AlreadyCompleted, demo_archive)"
proof -
  have f_in: "find (\<lambda>d. doc_id d = ''in-2'') (stockIns demo_archive) =
      Some \<lparr>doc_id = ''in-2'', docNo = ''IN20240521002'', warehouseId = ''W1'',
            status = ''completed'', items = [\<lparr>productId = ''P1'', item_quantity = 4\<rparr>]\<rparr>"
    by (simp add: demo_archive_def demo_db_def)
  have f_out: "find (\<lambda>d. doc_id d = ''out-9'') (stockOuts demo_archive) =
      Some \<lparr>doc_id = ''out-9'', docNo = ''OUT20240520001'', warehouseId = ''W1'',
            status = ''completed'', items = [\<lparr>productId = ''P1'', item_quantity = 1\<rparr>]\<rparr>"
    by (simp add: demo_archive_def)
  have f_tr: "find (\<lambda>d. transfer_id d = ''tr-9'') (stockTransfers demo_archive) =
      Some \<lparr>transfer_id = ''tr-9'', transferNo = ''TR20240520001'',
            fromWarehouseId = ''W1'', toWarehouseId = ''W2'', transfer_status = ''cancelled'',
            transfer_items = [\<lparr>productId = ''P1'', item_quantity = 1\<rparr>]\<rparr>"
    by (simp add: demo_archive_def)
  have f_ck: "find (\<lambda>d. check_id d = ''ck-9'') (stockChecks demo_archive) =
      Some \<lparr>check_id = ''ck-9'', checkNo = ''CK20240520001'', check_warehouseId = ''W1'',
            check_status = ''completed'',
            check_items = [\<lparr>check_productId = ''P1'', bookQuantity = 10, actualQuantity = 9,
                             difference = - 1\<rparr>]\<rparr>"
    by (simp add: demo_archive_def)
  from terminal_documents_are_final [of "''in-2''" demo_archive demo_calls demo_patch] f_in
  have p_in: "find (\<lambda>d. doc_id d = ''in-2'') (stockIns (fold perform demo_calls demo_archive)) =
      Some \<lparr>doc_id = ''in-2'', docNo = ''IN20240521002'', warehouseId = ''W1'',
            status = ''completed'', items = [\<lparr>productId = ''P1'', item_quantity = 4\<rparr>]\<rparr>
      \<and> updateStockIn ''in-2'' demo_patch demo_archive =
          (Inl (DocumentNotEditable ''completed''), demo_archive)
      \<and> completeStockIn ''in-2'' demo_archive = (Inl AlreadyCompleted, demo_archive)"
    by simp
  from terminal_documents_are_final [of "''out-9''" demo_archive demo_calls demo_patch] f_out
  have p_out: "find (\<lambda>d. doc_id d = ''out-9'') (stockOuts (fold perform demo_calls demo_archive)) =
      Some \<lparr>doc_id = ''out-9'', docNo = ''OUT20240520001'', warehouseId = ''W1'',
            status = ''completed'', items = [\<lparr>productId = ''P1'', item_quantity = 1\<rparr>]\<rparr>
      \<and> updateStockOut ''out-9'' demo_patch demo_archive =
          (Inl (DocumentNotEditable ''completed''), demo_archive)
      \<and> completeStockOut ''out-9'' demo_archive = (Inl AlreadyCompleted, demo_archive)"
    by simp
  from terminal_documents_are_final
         [of "''tr-9''" demo_archive demo_calls _
             "\<lparr>patch_fromWarehouseId = None, patch_toWarehouseId = None,
               patch_transfer_items = Some []\<rparr>"] f_tr
  have p_tr: "find (\<lambda>d. transfer_id d = ''tr-9'') (stockTransfers (fold perform demo_calls demo_archive)) =
      Some \<lparr>transfer_id = ''tr-9'', transferNo = ''TR20240520001'',
            fromWarehouseId = ''W1'', toWarehouseId = ''W2'', transfer_status = ''cancelled'',
            transfer_items = [\<lparr>productId = ''P1'', item_quantity = 1\<rparr>]\<rparr>
      \<and> updateStockTransfer ''tr-9''
         \<lparr>patch_fromWarehouseId = None, patch_toWarehouseId = None,
          patch_transfer_items = Some []\<rparr> demo_archive =
          (Inl (DocumentNotEditable ''cancelled''), demo_archive)
      \<and> completeStockTransfer ''tr-9'' demo_archive = (Inl AlreadyCancelled, demo_archive)"
    by simp
  from terminal_documents_are_final
         [of "''ck-9''" demo_archive demo_calls _ _
             "\<lparr>patch_check_warehouseId = None, patch_check_items = Some []\<rparr>"] f_ck
  have p_ck: "find (\<lambda>d. check_id d = ''ck-9'') (stockChecks (fold perform demo_calls demo_archive)) =
      Some \<lparr>check_id = ''ck-9'', checkNo = ''CK20240520001'', check_warehouseId = ''W1'',
            check_status = ''completed'',
            check_items = [\<lparr>check_productId = ''P1'', bookQuantity = 10, actualQuantity = 9,
                             difference = - 1\<rparr>]\<rparr>
      \<and> updateStockCheck ''ck-9''
         \<lparr>patch_check_warehouseId = None, patch_check_items = Some []\<rparr> demo_archive =
          (Inl (DocumentNotEditable ''completed''), demo_archive)
      \<and> completeStockCheck ''ck-9'' demo_archive = (Inl AlreadyCompleted, demo_archive)"
    by simp
  from p_in p_out p_tr p_ck show ?thesis by blast
qed

section \<open>Stock checks apply the stored difference\<close>

lemma applyDifference_is_applyDelta:
  "applyDifference wid item tbl = applyDelta_spec wid (check_productId item) (difference item) tbl"
  by (simp add: applyDifference_def applyDelta_spec_def)

lemma stockCheckLoop_is_applyDeltas:
  "stockCheckLoop wid its tbl =
     applyDeltas_spec wid (map (\<lambda>item. (check_productId item, difference item)) its) tbl"
  by (induction its arbitrary: tbl) (simp_all add: applyDifference_is_applyDelta split: sum.splits)

lemma find_map_same:
  assumes "find (\<lambda>d. key d = i) rows = Some d" and "\<And>d. key (g d) = key d"
  shows "find (\<lambda>d. key d = i) (map (\<lambda>d. if key d = i then g d else d) rows) = Some (g d)"
  using assms by (induction rows) (auto split: if_splits)

lemma updateStockCheck_result:
  assumes "updateStockCheck i data s = (Inr doc, s1)"
  shows "\<exists>old. find (\<lambda>d. check_id d = i) (stockChecks s) = Some old
           \<and> doc = patch_check_doc data old
           \<and> find (\<lambda>d. check_id d = i) (stockChecks s1) = Some doc"
proof (cases "find (\<lambda>d. check_id d = i) (stockChecks s)")
  case None
  with assms show ?thesis by (simp add: updateStockCheck_def)
next
  case (Some old)
  with assms have "doc = patch_check_doc data old"
    and "stockChecks s1 = map (\<lambda>d. if check_id d = i then patch_check_doc data d else d) (stockChecks s)"
    by (auto simp: updateStockCheck_def transaction_def split: if_splits option.splits)
  with Some show ?thesis by (simp add: find_map_same)
qed

lemma completeStockCheck_open:
  assumes "find (\<lambda>d. check_id d = i) (stockChecks s) = Some d"
      and "check_status d \<noteq> ''completed''" and "check_status d \<noteq> ''cancelled''"
  shows "completeStockCheck i s =
           (case stockCheckLoop (check_warehouseId d) (check_items d) (inventory s) of
              Inl e \<Rightarrow> (Inl e, s)
            | Inr tbl' \<Rightarrow>
                (Inr (), s\<lparr>stockChecks :=
                             map (\<lambda>d. if check_id d = i then d\<lparr>check_status := ''completed''\<rparr> else d)
                                 (stockChecks s),
                           inventory := tbl'\<rparr>))"
  using assms by (simp add: completeStockCheck_def transaction_def Let_def split: sum.splits)

text \<open>
  C5. \<open>createStockCheck\<close> stores each line with \<open>difference = actualQuantity - bookQuantity\<close>
  computed from the input, and so does \<open>updateStockCheck\<close> when it is given lines.
  Completing a draft stock check applies, line by line in the stored order and inside
  the transaction, the specification's signed adjustment with the stored difference as
  its delta: an increase for a positive difference, a decrease of its absolute value
  (with the decrease's checks) for a negative one, nothing for zero.
\<close>

theorem stock_check_applies_stored_difference:
  "(\<forall>doc s1. createStockCheck newId now data s = (Inr doc, s1) \<longrightarrow>
       check_items doc =
         map (\<lambda>item. \<lparr>check_productId = input_productId item,
                       bookQuantity = input_bookQuantity item,
                       actualQuantity = input_actualQuantity item,
                       difference = input_actualQuantity item - input_bookQuantity item\<rparr>)
             (input_check_items data)
       \<and> stockChecks s1 = stockChecks s @ [doc])
   \<and> (\<forall>doc s1 its. updateStockCheck i patch s = (Inr doc, s1) \<and> patch_check_items patch = Some its \<longrightarrow>
       check_items doc =
         map (\<lambda>item. \<lparr>check_productId = input_productId item,
                       bookQuantity = input_bookQuantity item,
                       actualQuantity = input_actualQuantity item,
                       difference = input_actualQuantity item - input_bookQuantity item\<rparr>) its
       \<and> find (\<lambda>d. check_id d = i) (stockChecks s1) = Some doc)
   \<and> (\<forall>d. find (\<lambda>d. check_id d = i) (stockChecks s) = Some d \<and> check_status d = ''draft'' \<longrightarrow>
       completeStockCheck i s =
         (case applyDeltas_spec (check_warehouseId d)
                 (map (\<lambda>item. (check_productId item, difference item)) (check_items d))
                 (inventory s) of
            Inl e \<Rightarrow> (Inl e, s)
          | Inr tbl' \<Rightarrow>
              (Inr (), s\<lparr>stockChecks :=
                           map (\<lambda>d. if check_id d = i then d\<lparr>check_status := ''completed''\<rparr> else d)
                               (stockChecks s),
                         inventory := tbl'\<rparr>)))"
proof (intro conjI allI impI)
  fix doc s1 assume "createStockCheck newId now data s = (Inr doc, s1)"
  from createStockCheck_result [OF this]
  show "check_items doc =
         map (\<lambda>item. \<lparr>check_productId = input_productId item,
                       bookQuantity = input_bookQuantity item,
                       actualQuantity = input_actualQuantity item,
                       difference = input_actualQuantity item - input_bookQuantity item\<rparr>)
             (input_check_items data)"
    and "stockChecks s1 = stockChecks s @ [doc]"
    by (simp_all add: itemsWithDifference_def)
next
  fix doc s1 its
  assume upd: "updateStockCheck i patch s = (Inr doc, s1) \<and> patch_check_items patch = Some its"
  then have "updateStockCheck i patch s = (Inr doc, s1)" by simp
  from updateStockCheck_result [OF this] upd
  show "check_items doc =
         map (\<lambda>item. \<lparr>check_productId = input_productId item,
                       bookQuantity = input_bookQuantity item,
                       actualQuantity = input_actualQuantity item,
                       difference = input_actualQuantity item - input_bookQuantity item\<rparr>) its"
    and "find (\<lambda>d. check_id d = i) (stockChecks s1) = Some doc"
    by (auto simp: patch_check_doc_def itemsWithDifference_def)
next
  fix d assume "find (\<lambda>d. check_id d = i) (stockChecks s) = Some d \<and> check_status d = ''draft''"
  then have found: "find (\<lambda>d. check_id d = i) (stockChecks s) = Some d"
    and draft: "check_status d = ''draft''" by simp_all
  have "completeStockCheck i s =
           (case stockCheckLoop (check_warehouseId d) (check_items d) (inventory s) of
              Inl e \<Rightarrow> (Inl e, s)
            | Inr tbl' \<Rightarrow>
                (Inr (), s\<lparr>stockChecks :=
                             map (\<lambda>d. if check_id d = i then d\<lparr>check_status := ''completed''\<rparr> else d)
                                 (stockChecks s),
                           inventory := tbl'\<rparr>))"
    by (rule completeStockCheck_open [OF found]) (simp_all add: draft)
  then show "completeStockCheck i s =
         (case applyDeltas_spec (check_warehouseId d)
                 (map (\<lambda>item. (check_productId item, difference item)) (check_items d))
                 (inventory s) of
            Inl e \<Rightarrow> (Inl e, s)
          | Inr tbl' \<Rightarrow>
              (Inr (), s\<lparr>stockChecks :=
                           map (\<lambda>d. if check_id d = i then d\<lparr>check_status := ''completed''\<rparr> else d)
                               (stockChecks s),
                         inventory := tbl'\<rparr>))"
    by (simp add: stockCheckLoop_is_applyDeltas)
qed

text \<open>
  At the sample state: a check created with book 20 and actual 17 stores the difference
  \<open>- 3\<close>; an update of ck-1 with book 4 and actual 9 stores 5; completing ck-1, whose
  lines carry \<open>- 3\<close> for P1 and \<open>5\<close> for P2, takes (W1, P1) from (10, 7, 3) to (7, 4, 3) and
  creates (W1, P2) as (5, 5, 0).
\<close>

theorem stock_check_applies_stored_difference_witness:
  "(\<exists>doc s1. createStockCheck ''ck-2'' demo_morning
        \<lparr>input_check_warehouseId = ''W1'',
         input_check_items = [\<lparr>input_productId = ''P1'', input_bookQuantity = 20,
                               input_actualQuantity = 17\<rparr>]\<rparr> demo_db = (Inr doc, s1)
      \<and> check_items doc =
          [\<lparr>check_productId = ''P1'', bookQuantity = 20, actualQuantity = 17, difference = - 3\<rparr>])
   \<and> (\<exists>doc s1. updateStockCheck ''ck-1''
        \<lparr>patch_check_warehouseId = None,
         patch_check_items = Some [\<lparr>input_productId = ''P2'', input_bookQuantity = 4,
                                    input_actualQuantity = 9\<rparr>]\<rparr> demo_db = (Inr doc, s1)
      \<and> check_items doc =
          [\<lparr>check_productId = ''P2'', bookQuantity = 4, actualQuantity = 9, difference = 5\<rparr>])
   \<and> (\<exists>s'. completeStockCheck ''ck-1'' demo_db = (Inr (), s')
      \<and> inventory s' (''W1'', ''P1'') =
          Some \<lparr>quantity = 7, availableQuantity = 4, reservedQuantity = 3\<rparr>
      \<and> inventory s' (''W1'', ''P2'') =
          Some \<lparr>quantity = 5, availableQuantity = 5, reservedQuantity = 0\<rparr>)"
proof -
  let ?check = "\<lparr>input_check_warehouseId = ''W1'',
         input_check_items = [\<lparr>input_productId = ''P1'', input_bookQuantity = 20,
                               input_actualQuantity = 17\<rparr>]\<rparr>"
  let ?patch = "\<lparr>patch_check_warehouseId = None,
         patch_check_items = Some [\<lparr>input_productId = ''P2'', input_bookQuantity = 4,
                                    input_actualQuantity = 9\<rparr>]\<rparr>"
  let ?old = "\<lparr>check_id = ''ck-1'', checkNo = ''CK20240521001'', check_warehouseId = ''W1'',
         check_status = ''draft'',
         check_items = [\<lparr>check_productId = ''P1'', bookQuantity = 10, actualQuantity = 7,
                          difference = - 3\<rparr>,
                        \<lparr>check_productId = ''P2'', bookQuantity = 0, actualQuantity = 5,
                          difference = 5\<rparr>]\<rparr>"
  have wh: "''W1'' \<in> warehouses demo_db" and p1: "''P1'' \<in> products demo_db"
    and p2: "''P2'' \<in> products demo_db"
    by (simp_all add: demo_db_def)
  have found: "find (\<lambda>d. check_id d = ''ck-1'') (stockChecks demo_db) = Some ?old"
    by (simp add: demo_db_def)
  obtain doc s1 where created: "createStockCheck ''ck-2'' demo_morning ?check demo_db = (Inr doc, s1)"
    by (simp add: createStockCheck_def missing_product_def transaction_def Let_def wh p1)
  obtain doc' s1' where updated: "updateStockCheck ''ck-1'' ?patch demo_db = (Inr doc', s1')"
    by (simp add: updateStockCheck_def found truthy_def missing_product_def transaction_def p2)
  from stock_check_applies_stored_difference [of "''ck-2''" demo_morning ?check demo_db] created
  have c: "check_items doc =
          [\<lparr>check_productId = ''P1'', bookQuantity = 20, actualQuantity = 17, difference = - 3\<rparr>]"
    by simp
  from stock_check_applies_stored_difference [of _ _ _ demo_db "''ck-1''" ?patch] updated
  have u: "check_items doc' =
          [\<lparr>check_productId = ''P2'', bookQuantity = 4, actualQuantity = 9, difference = 5\<rparr>]"
    by simp
  let ?tbl = "demo_ledger((''W1'', ''P1'') \<mapsto>
                 \<lparr>quantity = 7, availableQuantity = 4, reservedQuantity = 3\<rparr>,
               (''W1'', ''P2'') \<mapsto>
                 \<lparr>quantity = 5, availableQuantity = 5, reservedQuantity = 0\<rparr>)"
  have deltas: "applyDeltas_spec ''W1'' [(''P1'', - 3), (''P2'', 5)] (inventory demo_db) = Inr ?tbl"
    by (simp add: applyDelta_spec_def increaseInventoryInTransaction_def
        decreaseInventoryInTransaction_def demo_db_def demo_ledger_def)
  from stock_check_applies_stored_difference [of _ _ _ demo_db "''ck-1''"] found deltas
  have "completeStockCheck ''ck-1'' demo_db =
      (Inr (), demo_db\<lparr>stockChecks :=
                           map (\<lambda>d. if check_id d = ''ck-1'' then d\<lparr>check_status := ''completed''\<rparr> else d)
                               (stockChecks demo_db),
                         inventory := ?tbl\<rparr>)"
    by simp
  then have k: "\<exists>s'. completeStockCheck ''ck-1'' demo_db = (Inr (), s')
      \<and> inventory s' (''W1'', ''P1'') =
          Some \<lparr>quantity = 7, availableQuantity = 4, reservedQuantity = 3\<rparr>
      \<and> inventory s' (''W1'', ''P2'') =
          Some \<lparr>quantity = 5, availableQuantity = 5, reservedQuantity = 0\<rparr>"
    by simp
  from created c updated u k show ?thesis by blast
qed

end
